theory Spec2Isabelle
  imports Complex_Main "HOL-Library.Word"
begin

section \<open>Python values and exceptions\<close>

text \<open>
  The program is \<^verbatim>\<open>src/app.py\<close>. A Python \<^verbatim>\<open>str\<close> is modelled as a
  \<^typ>\<open>string\<close>: every \<^typ>\<open>char\<close> stands for one code point below 256.
  An exception is a value of \<open>py_error\<close>; a function that can raise returns
  \<open>py_error + 'a\<close>, with \<open>Inl\<close> for the exception.
\<close>

datatype py_error =
    ValueError string
  | AttributeError string
  | KeyError string
  | OverflowError string
  | RuntimeError string
  | FileNotFoundError string
  | DownloadError string
  | TypeError string
  | OtherError string

text \<open>\<^verbatim>\<open>str(exc)\<close>: the message the exception was raised with.\<close>

fun str_exc :: "py_error \<Rightarrow> string" where
  "str_exc (ValueError m) = m"
| "str_exc (AttributeError m) = m"
| "str_exc (KeyError m) = m"
| "str_exc (OverflowError m) = m"
| "str_exc (RuntimeError m) = m"
| "str_exc (FileNotFoundError m) = m"
| "str_exc (DownloadError m) = m"
| "str_exc (TypeError m) = m"
| "str_exc (OtherError m) = m"

text \<open>
  A float is a rational number, an infinity or NaN. Values of JSON and of the job
  records are \<open>pyval\<close>; a \<^verbatim>\<open>dict\<close> with string keys is an association list without
  repeated keys.
\<close>

datatype pyfloat = Fin rat | PosInf | NegInf | NaN

datatype pyval =
    PNone
  | PBool bool
  | PInt int
  | PFloat pyfloat
  | PStr string
  | PList "pyval list"
  | PDict "(string \<times> pyval) list"

text \<open>Truth value testing, as \<^verbatim>\<open>bool(v)\<close>, \<^verbatim>\<open>if v\<close> and \<^verbatim>\<open>v or d\<close> do it.\<close>

fun truthy :: "pyval \<Rightarrow> bool" where
  "truthy PNone = False"
| "truthy (PBool b) = b"
| "truthy (PInt i) = (i \<noteq> 0)"
| "truthy (PFloat f) = (f \<noteq> Fin 0)"
| "truthy (PStr s) = (s \<noteq> [])"
| "truthy (PList l) = (l \<noteq> [])"
| "truthy (PDict d) = (d \<noteq> [])"

section \<open>Format Policy: \<^verbatim>\<open>get_format_selector\<close>\<close>

definition quality_map :: "string \<rightharpoonup> string" where
  "quality_map =
     [''360p'' \<mapsto> ''360'', ''720p'' \<mapsto> ''720'', ''1080p60'' \<mapsto> ''1080'']"

definition get_format_selector :: "string \<Rightarrow> string \<Rightarrow> bool \<Rightarrow> py_error + string" where
  "get_format_selector fmt quality sound_on =
     (case quality_map quality of
        None \<Rightarrow> Inl (ValueError ''Unsupported quality'')
      | Some max_h \<Rightarrow>
          if fmt = ''mp3'' then Inr ''bestaudio/best''
          else if fmt \<noteq> ''mp4'' then Inl (ValueError ''Unsupported format'')
          else if quality = ''1080p60'' then
            (if sound_on then
               Inr (''bestvideo[ext=mp4][height<=1080][fps>=60]+bestaudio[ext=m4a]''
                    @ ''/bestvideo[height<=1080][fps>=60]+bestaudio''
                    @ ''/best[ext=mp4][height<=1080][fps>=60]''
                    @ ''/best[height<=1080]'')
             else
               Inr (''bestvideo[ext=mp4][height<=1080][fps>=60]''
                    @ ''/bestvideo[height<=1080][fps>=60]''
                    @ ''/bestvideo[height<=1080]''))
          else if sound_on then
            Inr (''bestvideo[ext=mp4][height<='' @ max_h @ '']+bestaudio[ext=m4a]''
                 @ ''/best[ext=mp4][height<='' @ max_h @ '']''
                 @ ''/best[height<='' @ max_h @ '']'')
          else
            Inr (''bestvideo[ext=mp4][height<='' @ max_h @ '']/bestvideo[height<=''
                 @ max_h @ '']''))"

section \<open>String operations of Python\<close>

text \<open>
  \<^verbatim>\<open>str.strip()\<close> removes leading and trailing white space; below code point 256
  the characters with \<^verbatim>\<open>isspace()\<close> are 9-13, 28-32, 133 and 160.
  \<^verbatim>\<open>str.strip(chars)\<close> removes the characters of \<open>chars\<close> instead.
\<close>

definition py_isspace :: "char \<Rightarrow> bool" where
  "py_isspace c = (of_char c \<in> {9, 10, 11, 12, 13, 28, 29, 30, 31, 32, 133, 160 :: nat})"

definition strip_with :: "(char \<Rightarrow> bool) \<Rightarrow> string \<Rightarrow> string" where
  "strip_with p s = rev (dropWhile p (rev (dropWhile p s)))"

definition py_strip :: "string \<Rightarrow> string" where
  "py_strip s = strip_with py_isspace s"

definition strip_chars :: "string \<Rightarrow> string \<Rightarrow> string" where
  "strip_chars cs s = strip_with (\<lambda>c. c \<in> set cs) s"

definition lstrip_chars :: "string \<Rightarrow> string \<Rightarrow> string" where
  "lstrip_chars cs s = dropWhile (\<lambda>c. c \<in> set cs) s"

text \<open>\<^verbatim>\<open>s.split(c)\<close> for a one-character separator: the result is never empty, and
  the empty string gives the list of one empty string.\<close>

fun split_on :: "char \<Rightarrow> string \<Rightarrow> string list" where
  "split_on c [] = [[]]"
| "split_on c (x # xs) =
     (let r = split_on c xs in if x = c then [] # r else (x # hd r) # tl r)"

text \<open>\<^verbatim>\<open>s.rfind(c)\<close>: the index of the last occurrence, or \<open>-1\<close>.\<close>

definition rfind :: "char \<Rightarrow> string \<Rightarrow> int" where
  "rfind c s =
     (if c \<in> set s then int (length s) - 1 - int (length (takeWhile (\<lambda>x. x \<noteq> c) (rev s)))
      else - 1)"

text \<open>\<^verbatim>\<open>str.lower()\<close>: below code point 256 no character outside ASCII becomes an ASCII
  character, and the model changes the ASCII letters only.\<close>

definition lower_char :: "char \<Rightarrow> char" where
  "lower_char c =
     (if 65 \<le> (of_char c :: nat) \<and> (of_char c :: nat) \<le> 90
      then char_of (of_char c + 32 :: nat) else c)"

definition lower :: "string \<Rightarrow> string" where
  "lower s = map lower_char s"

text \<open>\<^verbatim>\<open>s.startswith(p)\<close> and \<^verbatim>\<open>p in s\<close> for strings.\<close>

definition startswith :: "string \<Rightarrow> string \<Rightarrow> bool" where
  "startswith s p = (take (length p) s = p)"

fun contains :: "string \<Rightarrow> string \<Rightarrow> bool" where
  "contains [] p = (p = [])"
| "contains (x # xs) p = (startswith (x # xs) p \<or> contains xs p)"

text \<open>\<^verbatim>\<open>s.replace(old, "")\<close> for a non-empty \<open>old\<close>: every occurrence is removed,
  scanning from the left.\<close>

fun remove_all :: "string \<Rightarrow> string \<Rightarrow> string" where
  "remove_all old [] = []"
| "remove_all old (x # xs) =
     (if old \<noteq> [] \<and> startswith (x # xs) old
      then remove_all old (drop (length old) (x # xs))
      else x # remove_all old xs)"

section \<open>Pure paths\<close>

text \<open>
  \<^verbatim>\<open>pathlib.Path\<close> in its POSIX flavour (CPython 3.11): a path is its root
  (empty, \<open>/\<close> or \<open>//\<close>) and the components after it; empty components and
  \<open>.\<close> are dropped when the string is parsed.
\<close>

record path =
  root :: string
  tail :: "string list"

definition splitroot :: "string \<Rightarrow> string \<times> string" where
  "splitroot part =
     (if part \<noteq> [] \<and> hd part = CHR ''/'' then
        (let stripped_part = lstrip_chars ''/'' part in
         if length part - length stripped_part = 2 then (''//'', stripped_part)
         else (''/'', stripped_part))
      else ([], part))"

definition Path :: "string \<Rightarrow> path" where
  "Path s =
     (let (r, rel) = splitroot s in
      \<lparr> root = r, tail = filter (\<lambda>x. x \<noteq> [] \<and> x \<noteq> ''.'') (split_on CHR ''/'' rel) \<rparr>)"

definition name :: "path \<Rightarrow> string" where
  "name p = (if tail p = [] then [] else last (tail p))"

definition suffix_of_name :: "string \<Rightarrow> string" where
  "suffix_of_name n =
     (let i = rfind CHR ''.'' n in
      if 0 < i \<and> i < int (length n) - 1 then drop (nat i) n else [])"

definition suffix :: "path \<Rightarrow> string" where
  "suffix p = suffix_of_name (name p)"

definition stem :: "path \<Rightarrow> string" where
  "stem p =
     (let n = name p; i = rfind CHR ''.'' n in
      if 0 < i \<and> i < int (length n) - 1 then take (nat i) n else n)"

section \<open>Path Sanitizer: \<^verbatim>\<open>sanitize_file_basename\<close>\<close>

text \<open>The character class \<^verbatim>\<open>[A-Za-z0-9._ -]\<close> of the regular expression.\<close>

definition safe_char :: "char \<Rightarrow> bool" where
  "safe_char c =
     (let n = (of_char c :: nat) in
      (65 \<le> n \<and> n \<le> 90) \<or> (97 \<le> n \<and> n \<le> 122) \<or> (48 \<le> n \<and> n \<le> 57)
      \<or> c \<in> set ''._ -'')"

definition sanitize_file_basename :: "string option \<Rightarrow> string option" where
  "sanitize_file_basename nm =
     (case nm of
        None \<Rightarrow> None
      | Some n \<Rightarrow>
          (let text = py_strip n;
               text = (if suffix (Path text) \<noteq> [] then stem (Path text) else text);
               safe = strip_chars '' .'' (map (\<lambda>c. if safe_char c then c else CHR ''_'') text)
           in if safe = [] then None else Some safe))"

text \<open>The remaining operations of a pure path that the program uses.\<close>

fun join_with :: "string \<Rightarrow> string list \<Rightarrow> string" where
  "join_with sep [] = []"
| "join_with sep [x] = x"
| "join_with sep (x # y # ys) = x @ sep @ join_with sep (y # ys)"

definition path_str :: "path \<Rightarrow> string" where
  "path_str p = (let s = root p @ join_with ''/'' (tail p) in if s = [] then ''.'' else s)"

definition parent :: "path \<Rightarrow> path" where
  "parent p = p\<lparr>tail := butlast (tail p)\<rparr>"

definition joinpath :: "path \<Rightarrow> string \<Rightarrow> path" where
  "joinpath p s =
     (let q = Path s in
      if root q \<noteq> [] then q else \<lparr> root = root p, tail = tail p @ tail q \<rparr>)"

text \<open>\<^verbatim>\<open>with_suffix\<close> for a suffix that is itself valid, as \<open>.mp3\<close> is; a path with an
  empty name (\<open>/\<close>, \<open>//\<close> or \<open>.\<close>) raises.\<close>

definition with_suffix :: "path \<Rightarrow> string \<Rightarrow> py_error + path" where
  "with_suffix p sfx =
     (let nm = name p in
      if nm = [] then
        Inl (ValueError (''PosixPath('' @ [char_of (39 :: nat)] @ path_str p
                         @ [char_of (39 :: nat)] @ '') has an empty name''))
      else
        (let old_suffix = suffix p;
             nm' = (if old_suffix = [] then nm @ sfx
                    else take (length nm - length old_suffix) nm @ sfx)
         in Inr (p\<lparr>tail := butlast (tail p) @ [nm']\<rparr>)))"

section \<open>Job Store\<close>

text \<open>
  \<^verbatim>\<open>jobs\<close> maps a job id to a dict object. The dict objects live in a heap and
  \<^verbatim>\<open>jobs\<close> holds their addresses, so that a reference obtained from
  \<^verbatim>\<open>jobs.get(job_id)\<close> is an address and reads through it see the heap of the moment.
  A new dict gets the address \<open>next_addr\<close>.
\<close>

type_synonym job = "string \<rightharpoonup> pyval"

type_synonym kwargs = "(string \<times> pyval) list"

record store =
  jobs :: "string \<rightharpoonup> nat"
  heap :: "nat \<Rightarrow> job"
  next_addr :: nat

definition empty_store :: store where
  "empty_store = \<lparr> jobs = Map.empty, heap = (\<lambda>_. Map.empty), next_addr = 0 \<rparr>"

definition update_job :: "store \<Rightarrow> string \<Rightarrow> kwargs \<Rightarrow> store" where
  "update_job st job_id kw =
     (case jobs st job_id of
        None \<Rightarrow> st
      | Some a \<Rightarrow> st\<lparr>heap := (heap st)(a := heap st a ++ map_of kw)\<rparr>)"

text \<open>The record that \<^verbatim>\<open>create_job\<close> and \<^verbatim>\<open>start_download\<close> insert; \<open>now\<close> is the
  reading of \<^verbatim>\<open>time.time()\<close>.\<close>

definition initial_job :: "pyfloat \<Rightarrow> job" where
  "initial_job now =
     [''status'' \<mapsto> PStr ''queued'',
      ''progress'' \<mapsto> PInt 0,
      ''error'' \<mapsto> PNone,
      ''file_path'' \<mapsto> PNone,
      ''file_name'' \<mapsto> PNone,
      ''saved_dir'' \<mapsto> PNone,
      ''created_at'' \<mapsto> PFloat now]"

text \<open>\<^verbatim>\<open>uuid.uuid4().hex\<close>: the 128-bit value of the UUID as 32 lower-case
  hexadecimal digits.\<close>

definition hexdigit :: "nat \<Rightarrow> char" where
  "hexdigit n = ''0123456789abcdef'' ! (n mod 16)"

definition uuid_hex :: "128 word \<Rightarrow> string" where
  "uuid_hex u = map (\<lambda>i. hexdigit (unat u div 16 ^ i)) (rev [0..<32])"

definition insert_job :: "store \<Rightarrow> string \<Rightarrow> pyfloat \<Rightarrow> store" where
  "insert_job st job_id now =
     st\<lparr>jobs := (jobs st)(job_id \<mapsto> next_addr st),
        heap := (heap st)(next_addr st := initial_job now),
        next_addr := Suc (next_addr st)\<rparr>"

definition create_job :: "store \<Rightarrow> 128 word \<Rightarrow> pyfloat \<Rightarrow> string \<times> store" where
  "create_job st u now = (let job_id = uuid_hex u in (job_id, insert_job st job_id now))"

text \<open>The record of a job id, read through the store.\<close>

definition job_of :: "store \<Rightarrow> string \<Rightarrow> job option" where
  "job_of st job_id = map_option (heap st) (jobs st job_id)"

section \<open>Job Runner\<close>

text \<open>
  The external downloader and the file system are the runner's environment.
  \<^verbatim>\<open>extract_info\<close> gets the options and the URL, calls the progress hook with a
  sequence of events and then returns the result metadata or raises. The file system
  is the one the runner finds after the download: which paths exist, and the entries
  of a directory with their modification times. \<open>float_percent downloaded total\<close> is
  the value of \<^verbatim>\<open>int((downloaded / total) * 100)\<close>, which Python computes in floating
  point.
\<close>

datatype hook_event =
    Downloading "int option" "int option" "int option"
  | Finished
  | OtherStatus

record info =
  requested_downloads :: "string option list"
  title :: "string option"

record ydl_opts =
  opt_format :: string
  opt_outtmpl :: string
  opt_ffmpeg_location :: "string option"
  opt_extract_audio :: bool
  opt_merge_output_format :: "string option"

record world =
  DOWNLOAD_DIR :: path
  expanduser :: "path \<Rightarrow> py_error + path"
  mkdir :: "path \<Rightarrow> string option"
  detect_ffmpeg_bin_dir :: "string option"
  float_percent :: "int \<Rightarrow> int \<Rightarrow> int"
  extract_info :: "ydl_opts \<Rightarrow> string \<Rightarrow> hook_event list \<times> (py_error + info)"
  path_exists :: "path \<Rightarrow> bool"
  listdir :: "path \<Rightarrow> (string \<times> int) list"

text \<open>\<^verbatim>\<open>x or y\<close> on an optional number: \<^verbatim>\<open>None\<close> and \<open>0\<close> are false.\<close>

definition num_or :: "int option \<Rightarrow> int \<Rightarrow> int" where
  "num_or x y = (case x of None \<Rightarrow> y | Some v \<Rightarrow> if v \<noteq> 0 then v else y)"

text \<open>The progress hook: the calls of \<^verbatim>\<open>update_job\<close> one event leads to, as their
  keyword arguments.\<close>

definition hook :: "world \<Rightarrow> hook_event \<Rightarrow> kwargs list" where
  "hook w d =
     (case d of
        Downloading total_bytes total_bytes_estimate downloaded_bytes \<Rightarrow>
          (let total = num_or total_bytes (num_or total_bytes_estimate 0);
               downloaded = num_or downloaded_bytes 0
           in if total > 0 then
                (let pct = float_percent w downloaded total
                 in [[(''progress'', PInt (max 1 (min pct 99)))]])
              else [])
      | Finished \<Rightarrow> [[(''progress'', PInt 98)]]
      | OtherStatus \<Rightarrow> [])"

definition resolve_output_path ::
    "info \<Rightarrow> string \<Rightarrow> path \<Rightarrow> string option \<Rightarrow> py_error + path" where
  "resolve_output_path meta fmt download_dir preferred_base =
     (let requested = requested_downloads meta;
          fp = (case requested of [] \<Rightarrow> None | r # _ \<Rightarrow> r)
      in if fp \<noteq> None \<and> fp \<noteq> Some [] then
           (let p = Path (the fp) in
            if fmt = ''mp3'' then with_suffix p ''.mp3'' else Inr p)
         else
           (let template_base =
                  (if preferred_base \<noteq> None \<and> preferred_base \<noteq> Some [] then the preferred_base
                   else if title meta \<noteq> None \<and> title meta \<noteq> Some [] then the (title meta)
                   else ''download'');
                safe = (case sanitize_file_basename (Some template_base) of
                          None \<Rightarrow> ''download'' | Some s \<Rightarrow> s);
                ext = (if fmt = ''mp3'' then ''mp3'' else ''mp4'')
            in Inr (joinpath download_dir (safe @ ''.'' @ ext))))"

text \<open>
  \<^verbatim>\<open>target_dir.glob(f"{safe_name}.*")\<close>: the entries of the directory whose name
  starts with \<open>safe_name\<close> and a dot (\<open>safe_name\<close> has no pattern character: it is
  a sanitized name or a job id). \<^verbatim>\<open>sorted(..., reverse=True)\<close> is stable.
\<close>

definition glob_candidates :: "world \<Rightarrow> path \<Rightarrow> string \<Rightarrow> (path \<times> int) list" where
  "glob_candidates w target_dir safe_name =
     map (\<lambda>(n, t). (joinpath target_dir n, t))
       (filter (\<lambda>(n, t). startswith n (safe_name @ ''.'')) (listdir w target_dir))"

definition candidates :: "world \<Rightarrow> path \<Rightarrow> string \<Rightarrow> path list" where
  "candidates w target_dir safe_name =
     map fst (sort_key (\<lambda>(p, t). - t) (glob_candidates w target_dir safe_name))"

text \<open>Lines 277-285 and 347-355: the artifact path after a successful download.\<close>

definition final_path :: "world \<Rightarrow> info \<Rightarrow> string \<Rightarrow> path \<Rightarrow> string \<Rightarrow> py_error + path" where
  "final_path w meta fmt target_dir safe_name =
     (case resolve_output_path meta fmt target_dir (Some safe_name) of
        Inl exc \<Rightarrow> Inl exc
      | Inr p \<Rightarrow>
          (let p' = (if \<not> path_exists w p then
                       (case candidates w target_dir safe_name of [] \<Rightarrow> p | c # _ \<Rightarrow> c)
                     else p)
           in if \<not> path_exists w p' then
                Inl (FileNotFoundError ''Download finished but output file was not found.'')
              else Inr p'))"

definition completed_update :: "path \<Rightarrow> kwargs" where
  "completed_update p =
     [(''status'', PStr ''completed''),
      (''progress'', PInt 100),
      (''file_path'', PStr (path_str p)),
      (''file_name'', PStr (name p)),
      (''saved_dir'', PStr (path_str (parent p)))]"

definition error_update :: "string \<Rightarrow> kwargs" where
  "error_update msg = [(''status'', PStr ''error''), (''error'', PStr msg), (''progress'', PInt 0)]"

definition target_dir_of :: "world \<Rightarrow> string option \<Rightarrow> py_error + path" where
  "target_dir_of w output_dir =
     (if output_dir \<noteq> None \<and> output_dir \<noteq> Some [] then expanduser w (Path (the output_dir))
      else Inr (DOWNLOAD_DIR w))"

definition safe_name_of :: "string \<Rightarrow> string option \<Rightarrow> string" where
  "safe_name_of job_id output_name =
     (case sanitize_file_basename output_name of None \<Rightarrow> job_id | Some s \<Rightarrow> s)"

definition outtmpl_of :: "path \<Rightarrow> string \<Rightarrow> string" where
  "outtmpl_of target_dir safe_name = path_str (joinpath target_dir (safe_name @ ''.%(ext)s''))"

text \<open>The options the two runners give the downloader (the hook apart).\<close>

definition download_opts :: "world \<Rightarrow> string \<Rightarrow> string \<Rightarrow> string \<Rightarrow> bool \<Rightarrow> ydl_opts" where
  "download_opts w format_selector outtmpl fmt sound_on =
     \<lparr> opt_format = format_selector,
       opt_outtmpl = outtmpl,
       opt_ffmpeg_location = detect_ffmpeg_bin_dir w,
       opt_extract_audio = (fmt = ''mp3''),
       opt_merge_output_format =
         (if fmt \<noteq> ''mp3'' \<and> fmt = ''mp4'' \<and> sound_on then Some ''mp4'' else None) \<rparr>"

definition social_opts :: "world \<Rightarrow> string \<Rightarrow> ydl_opts" where
  "social_opts w outtmpl =
     \<lparr> opt_format = ''bestvideo[ext=mp4]+bestaudio[ext=m4a]/best[ext=mp4]/best'',
       opt_outtmpl = outtmpl,
       opt_ffmpeg_location = detect_ffmpeg_bin_dir w,
       opt_extract_audio = False,
       opt_merge_output_format = Some ''mp4'' \<rparr>"

text \<open>
  The calls of \<^verbatim>\<open>update_job\<close> that one run of the job makes, in order. An exception
  of \<^verbatim>\<open>expanduser\<close> at line 227 is outside every \<^verbatim>\<open>try\<close>: the thread ends and
  nothing is written.
\<close>

definition run_download_job_updates ::
    "world \<Rightarrow> string \<Rightarrow> string \<Rightarrow> string \<Rightarrow> string \<Rightarrow> bool \<Rightarrow> string option \<Rightarrow> string option
     \<Rightarrow> kwargs list" where
  "run_download_job_updates w job_id url fmt quality sound_on output_dir output_name =
     (case get_format_selector fmt quality sound_on of
        Inl exc \<Rightarrow> [error_update (str_exc exc)]
      | Inr format_selector \<Rightarrow>
          (case target_dir_of w output_dir of
             Inl exc \<Rightarrow> []
           | Inr target_dir \<Rightarrow>
               (case mkdir w target_dir of
                  Some exc \<Rightarrow> [error_update (''Cannot create download folder: '' @ exc)]
                | None \<Rightarrow>
                    (let safe_name = safe_name_of job_id output_name;
                         outtmpl = outtmpl_of target_dir safe_name;
                         opts = download_opts w format_selector outtmpl fmt sound_on;
                         (events, result) = extract_info w opts url
                     in concat (map (hook w) events) @
                        [case (case result of
                                 Inl exc \<Rightarrow> Inl exc
                               | Inr meta \<Rightarrow> final_path w meta fmt target_dir safe_name) of
                           Inr p \<Rightarrow> completed_update p
                         | Inl (DownloadError msg) \<Rightarrow>
                             error_update
                               (if contains msg ''Sign in to confirm your age''
                                then ''This video is age-restricted and cannot be downloaded without authentication.''
                                else msg)
                         | Inl exc \<Rightarrow> error_update (str_exc exc)]))))"

definition run_social_download_job_updates ::
    "world \<Rightarrow> string \<Rightarrow> string \<Rightarrow> string option \<Rightarrow> string option \<Rightarrow> kwargs list" where
  "run_social_download_job_updates w job_id url output_dir output_name =
     (case target_dir_of w output_dir of
        Inl exc \<Rightarrow> []
      | Inr target_dir \<Rightarrow>
          (case mkdir w target_dir of
             Some exc \<Rightarrow> [error_update (''Cannot create download folder: '' @ exc)]
           | None \<Rightarrow>
               (let safe_name = safe_name_of job_id output_name;
                    outtmpl = outtmpl_of target_dir safe_name;
                    opts = social_opts w outtmpl;
                    (events, result) = extract_info w opts url
                in concat (map (hook w) events) @
                   [case (case result of
                            Inl exc \<Rightarrow> Inl exc
                          | Inr meta \<Rightarrow> final_path w meta ''mp4'' target_dir safe_name) of
                      Inr p \<Rightarrow> completed_update p
                    | Inl exc \<Rightarrow> error_update (str_exc exc)])))"

text \<open>The runner applies its updates to the store one after the other; \<open>store_trace\<close>
  lists the store after each of them, starting with the store the runner finds.\<close>

definition apply_updates :: "store \<Rightarrow> string \<Rightarrow> kwargs list \<Rightarrow> store" where
  "apply_updates st job_id kws = foldl (\<lambda>s kw. update_job s job_id kw) st kws"

fun store_trace :: "store \<Rightarrow> string \<Rightarrow> kwargs list \<Rightarrow> store list" where
  "store_trace st job_id [] = [st]"
| "store_trace st job_id (kw # kws) = st # store_trace (update_job st job_id kw) job_id kws"

definition run_download_job ::
    "world \<Rightarrow> store \<Rightarrow> string \<Rightarrow> string \<Rightarrow> string \<Rightarrow> string \<Rightarrow> bool \<Rightarrow> string option
     \<Rightarrow> string option \<Rightarrow> store" where
  "run_download_job w st job_id url fmt quality sound_on output_dir output_name =
     apply_updates st job_id
       (run_download_job_updates w job_id url fmt quality sound_on output_dir output_name)"

definition run_social_download_job ::
    "world \<Rightarrow> store \<Rightarrow> string \<Rightarrow> string \<Rightarrow> string option \<Rightarrow> string option \<Rightarrow> store" where
  "run_social_download_job w st job_id url output_dir output_name =
     apply_updates st job_id (run_social_download_job_updates w job_id url output_dir output_name)"

text \<open>The operations on the store, to state what holds after any sequence of them.\<close>

datatype store_op =
    Create "128 word" pyfloat
  | Update string kwargs

fun apply_op :: "store \<Rightarrow> store_op \<Rightarrow> store" where
  "apply_op st (Create u now) = snd (create_job st u now)"
| "apply_op st (Update job_id kw) = update_job st job_id kw"

definition run_ops :: "store \<Rightarrow> store_op list \<Rightarrow> store" where
  "run_ops st ops = foldl apply_op st ops"

definition job_keys :: "string set" where
  "job_keys =
     {''status'', ''progress'', ''error'', ''file_path'', ''file_name'', ''saved_dir'',
      ''created_at''}"

text \<open>Every record reachable through \<^verbatim>\<open>jobs\<close> has the seven keys.\<close>

definition complete :: "store \<Rightarrow> bool" where
  "complete st = (\<forall>a. a \<in> ran (jobs st) \<longrightarrow> job_keys \<subseteq> dom (heap st a))"

text \<open>What a reader of the store finds under \<open>progress\<close> and \<open>status\<close>.\<close>

definition progress_of :: "store \<Rightarrow> string \<Rightarrow> pyval option" where
  "progress_of st job_id = (case job_of st job_id of None \<Rightarrow> None | Some j \<Rightarrow> j ''progress'')"

definition status_of :: "store \<Rightarrow> string \<Rightarrow> pyval option" where
  "status_of st job_id = (case job_of st job_id of None \<Rightarrow> None | Some j \<Rightarrow> j ''status'')"

definition progress_trace :: "store \<Rightarrow> string \<Rightarrow> kwargs list \<Rightarrow> pyval option list" where
  "progress_trace st job_id kws = map (\<lambda>s. progress_of s job_id) (store_trace st job_id kws)"

text \<open>An environment for the examples: the download reports 100 of 100 bytes and the
  end of the transfer, and the file it names exists.\<close>

definition example_world :: world where
  "example_world =
     \<lparr> DOWNLOAD_DIR = Path ''/srv/downloads'',
       expanduser = Inr,
       mkdir = (\<lambda>_. None),
       detect_ffmpeg_bin_dir = None,
       float_percent = (\<lambda>downloaded total. (downloaded * 100) div total),
       extract_info = (\<lambda>opts url.
         ([Downloading (Some 100) None (Some 100), Finished],
          Inr \<lparr> requested_downloads = [Some ''/srv/downloads/clip.mp4''], title = None \<rparr>)),
       path_exists = (\<lambda>_. True),
       listdir = (\<lambda>_. []) \<rparr>"

text \<open>A job that is being downloaded: still \<open>queued\<close>, with a progress from 0 to 99.\<close>

definition running :: "store \<Rightarrow> string \<Rightarrow> bool" where
  "running st job_id =
     (\<exists>n. progress_of st job_id = Some (PInt n) \<and> 0 \<le> n \<and> n \<le> 99
          \<and> status_of st job_id = Some (PStr ''queued''))"

text \<open>The bounds on the progress of a job, and the integers a trace of progress values
  holds.\<close>

definition progress_inv :: "store \<Rightarrow> string \<Rightarrow> bool" where
  "progress_inv s job_id =
     (\<exists>n. progress_of s job_id = Some (PInt n) \<and> 0 \<le> n \<and> n \<le> 100
          \<and> (n = 100 \<longrightarrow> status_of s job_id = Some (PStr ''completed''))
          \<and> (status_of s job_id = Some (PStr ''error'') \<longrightarrow> n = 0))"

fun progress_values :: "pyval option list \<Rightarrow> int list" where
  "progress_values [] = []"
| "progress_values (Some (PInt n) # vs) = n # progress_values vs"
| "progress_values (_ # vs) = progress_values vs"


section \<open>Metrics analysis\<close>

text \<open>
  Floating point: the comparisons of a float with a threshold are exact and are
  defined here; the conversions and the arithmetic round, and are taken as the
  operations \<open>fl\<close> of the float implementation. \<^verbatim>\<open>float(n)\<close> raises for an integer
  that rounds to \<open>2 ^ 1024\<close> or beyond.
\<close>

record float_ops =
  str_to_float :: "string \<Rightarrow> pyfloat option"
  int_to_float :: "int \<Rightarrow> pyfloat"
  fadd :: "pyfloat \<Rightarrow> pyfloat \<Rightarrow> pyfloat"
  fmul :: "pyfloat \<Rightarrow> pyfloat \<Rightarrow> pyfloat"
  fdiv :: "pyfloat \<Rightarrow> pyfloat \<Rightarrow> pyfloat"

fun fge :: "pyfloat \<Rightarrow> rat \<Rightarrow> bool" where
  "fge (Fin x) r = (x \<ge> r)"
| "fge PosInf r = True"
| "fge NegInf r = False"
| "fge NaN r = False"

fun fle :: "pyfloat \<Rightarrow> rat \<Rightarrow> bool" where
  "fle (Fin x) r = (x \<le> r)"
| "fle PosInf r = False"
| "fle NegInf r = True"
| "fle NaN r = False"

fun fgt :: "pyfloat \<Rightarrow> rat \<Rightarrow> bool" where
  "fgt (Fin x) r = (x > r)"
| "fgt PosInf r = True"
| "fgt NegInf r = False"
| "fgt NaN r = False"

definition float_limit :: int where
  "float_limit = 2 ^ 1024 - 2 ^ 970"

definition float_of_int :: "float_ops \<Rightarrow> int \<Rightarrow> py_error + pyfloat" where
  "float_of_int fl n =
     (if \<bar>n\<bar> \<ge> float_limit
      then Inl (OverflowError ''int too large to convert to float'')
      else Inr (int_to_float fl n))"

text \<open>\<^verbatim>\<open>s.replace(c, "")\<close> for a single character.\<close>

definition remove_char :: "char \<Rightarrow> string \<Rightarrow> string" where
  "remove_char c s = filter (\<lambda>x. x \<noteq> c) s"

text \<open>
  \<^verbatim>\<open>safe_float\<close>. The text of a list or of a dict starts with a bracket or a brace,
  which \<^verbatim>\<open>float\<close> rejects, so both give \<^verbatim>\<open>None\<close>.
\<close>

definition safe_float :: "float_ops \<Rightarrow> pyval \<Rightarrow> py_error + pyfloat option" where
  "safe_float fl v =
     (case v of
        PNone \<Rightarrow> Inr None
      | PBool b \<Rightarrow> Inr (Some (Fin (if b then 1 else 0)))
      | PInt n \<Rightarrow> (case float_of_int fl n of Inl exc \<Rightarrow> Inl exc | Inr f \<Rightarrow> Inr (Some f))
      | PFloat f \<Rightarrow> Inr (Some f)
      | PStr s \<Rightarrow>
          if s = [] then Inr None
          else
            (let text = remove_char CHR '','' (py_strip s);
                 text = remove_char CHR ''%'' text;
                 text = remove_char CHR ''$'' text
             in Inr (str_to_float fl text))
      | PList l \<Rightarrow> Inr None
      | PDict d \<Rightarrow> Inr None)"

definition score_higher_better :: "pyfloat option \<Rightarrow> rat \<Rightarrow> rat \<Rightarrow> int option" where
  "score_higher_better v good ok =
     (case v of
        None \<Rightarrow> None
      | Some x \<Rightarrow> if fge x good then Some 95 else if fge x ok then Some 75 else Some 45)"

definition score_lower_better :: "pyfloat option \<Rightarrow> rat \<Rightarrow> rat \<Rightarrow> int option" where
  "score_lower_better v good ok =
     (case v of
        None \<Rightarrow> None
      | Some x \<Rightarrow> if fle x good then Some 95 else if fle x ok then Some 75 else Some 45)"

record metric =
  m_name :: string
  m_value :: "pyfloat option"
  m_score :: "int option"
  m_rating :: string

text \<open>The result of the analysis; the fields are the keys of the returned dict.\<close>

record analysis =
  r_overall_score :: int
  r_verdict :: string
  r_metrics :: "metric list"
  r_tips :: "string list"
  r_notes :: "string list"

text \<open>\<^verbatim>\<open>d.get(k)\<close> on a dict, \<^verbatim>\<open>None\<close> for a missing key.\<close>

definition dict_get :: "(string \<times> pyval) list \<Rightarrow> string \<Rightarrow> pyval" where
  "dict_get d k = (case map_of d k of None \<Rightarrow> PNone | Some v \<Rightarrow> v)"

definition bind_err :: "py_error + 'a \<Rightarrow> ('a \<Rightarrow> py_error + 'b) \<Rightarrow> py_error + 'b" where
  "bind_err x f = (case x of Inl exc \<Rightarrow> Inl exc | Inr v \<Rightarrow> f v)"

text \<open>\<^verbatim>\<open>x or 0\<close> and \<^verbatim>\<open>x and x > 0\<close> on an optional float.\<close>

definition or_zero :: "pyfloat option \<Rightarrow> pyfloat" where
  "or_zero x = (case x of None \<Rightarrow> Fin 0 | Some v \<Rightarrow> if v \<noteq> Fin 0 then v else Fin 0)"

definition positive :: "pyfloat option \<Rightarrow> bool" where
  "positive x = (case x of None \<Rightarrow> False | Some v \<Rightarrow> v \<noteq> Fin 0 \<and> fgt v 0)"

text \<open>\<^verbatim>\<open>add_metric\<close>: the state is the pair of \<^verbatim>\<open>results\<close> and \<^verbatim>\<open>tips\<close>.\<close>

definition add_metric ::
    "metric list \<times> string list \<Rightarrow> string \<times> pyfloat option \<times> int option \<times> string \<times> string option
     \<Rightarrow> metric list \<times> string list" where
  "add_metric st call =
     (let (results, tips) = st; (nm, v, score, low_tip, high_tip) = call in
      case score of
        None \<Rightarrow>
          (results @ [\<lparr> m_name = nm, m_value = v, m_score = None, m_rating = ''No data'' \<rparr>],
           tips)
      | Some sc \<Rightarrow>
          (let rating = (if sc \<ge> 90 then ''Excellent'' else if sc \<ge> 70 then ''Good''
                         else ''Needs Work'')
           in (results @ [\<lparr> m_name = nm, m_value = v, m_score = Some sc, m_rating = rating \<rparr>],
               if sc < 70 then tips @ [low_tip]
               else if high_tip \<noteq> None \<and> high_tip \<noteq> Some [] then tips @ [the high_tip]
               else tips)))"

text \<open>Lines 462-484: the calls of \<^verbatim>\<open>add_metric\<close> in order, then the overall score,
  the verdict and the returned dict. The scores are at most 21 integers up to 95, for
  which \<^verbatim>\<open>int(sum / len)\<close> is the integer quotient.\<close>

definition summarize ::
    "(string \<times> pyfloat option \<times> int option \<times> string \<times> string option) list \<Rightarrow> analysis" where
  "summarize calls =
     (let (results, tips) = foldl add_metric ([], []) calls;
          numeric_scores = map the (filter (\<lambda>s. s \<noteq> None) (map m_score results));
          overall_score =
            (if numeric_scores \<noteq> [] then sum_list numeric_scores div int (length numeric_scores)
             else 0);
          verdict =
            (if overall_score \<ge> 85 then ''Strong performance''
             else if overall_score \<ge> 70 then ''Healthy, but with optimization room''
             else ''Underperforming'');
          tips =
            (if tips = [] then
               [''Metrics look healthy. Keep testing titles, thumbnails, and first-30-second hooks.'']
             else tips)
      in \<lparr> r_overall_score = overall_score,
           r_verdict = verdict,
           r_metrics = results,
           r_tips = take 12 tips,
           r_notes =
             [''Most advanced metrics (CTR, AVD, APV, retention, revenue, RPM/CPM) are YouTube Studio analytics inputs.'',
              ''Public fetch can auto-fill only limited fields like views/likes/comments/title/duration.''] \<rparr>)"

text \<open>
  \<^verbatim>\<open>analyze_metrics\<close>. Every division is behind the test that its divisor is
  positive.
\<close>

definition analyze_metrics :: "float_ops \<Rightarrow> (string \<times> pyval) list \<Rightarrow> py_error + analysis" where
  "analyze_metrics fl metrics =
     bind_err (safe_float fl (dict_get metrics ''views'')) (\<lambda>views.
     bind_err (safe_float fl (dict_get metrics ''likes'')) (\<lambda>likes.
     bind_err (safe_float fl (dict_get metrics ''dislikes'')) (\<lambda>dislikes.
     bind_err (safe_float fl (dict_get metrics ''ctr'')) (\<lambda>ctr.
     bind_err (safe_float fl (dict_get metrics ''avd'')) (\<lambda>avd.
     bind_err (safe_float fl (dict_get metrics ''apv'')) (\<lambda>apv.
     bind_err (safe_float fl (dict_get metrics ''impressions'')) (\<lambda>impressions.
     bind_err (safe_float fl (dict_get metrics ''unique_viewers'')) (\<lambda>unique_viewers.
     bind_err (safe_float fl (dict_get metrics ''watch_time'')) (\<lambda>watch_time.
     bind_err (safe_float fl (dict_get metrics ''shares'')) (\<lambda>shares.
     bind_err (safe_float fl (dict_get metrics ''comments'')) (\<lambda>comments.
     bind_err (safe_float fl (dict_get metrics ''subs_gained'')) (\<lambda>subs_gained.
     bind_err (safe_float fl (dict_get metrics ''subs_lost'')) (\<lambda>subs_lost.
     bind_err (safe_float fl (dict_get metrics ''returning_viewers'')) (\<lambda>returning_viewers.
     bind_err (safe_float fl (dict_get metrics ''new_viewers'')) (\<lambda>new_viewers.
     bind_err (safe_float fl (dict_get metrics ''end_screen_ctr'')) (\<lambda>end_screen_ctr.
     bind_err (safe_float fl (dict_get metrics ''card_teaser_clicks'')) (\<lambda>card_clicks.
     bind_err (safe_float fl (dict_get metrics ''rpm'')) (\<lambda>rpm.
     bind_err (safe_float fl (dict_get metrics ''cpm'')) (\<lambda>cpm.
     bind_err (safe_float fl (dict_get metrics ''playback_cpm'')) (\<lambda>playback_cpm.
     bind_err (safe_float fl (dict_get metrics ''estimated_revenue'')) (\<lambda>estimated_revenue.
     bind_err (safe_float fl (dict_get metrics ''audience_retention'')) (\<lambda>audience_retention.
     bind_err (safe_float fl (dict_get metrics ''relative_retention'')) (\<lambda>relative_retention.
     bind_err (safe_float fl (dict_get metrics ''sub_to_view_ratio'')) (\<lambda>sub_to_view_ratio.
     bind_err (safe_float fl (dict_get metrics ''engagement_rate'')) (\<lambda>engagement_rate.
     (let engagement_rate =
            (if positive views \<and> engagement_rate = None then
               (let total_interactions =
                      fadd fl (fadd fl (or_zero likes) (or_zero comments)) (or_zero shares)
                in Some (fmul fl (fdiv fl total_interactions (the views)) (Fin 100)))
             else engagement_rate);
          sub_to_view_ratio =
            (if positive views \<and> sub_to_view_ratio = None then
               Some (fmul fl (fdiv fl (or_zero subs_gained) (the views)) (Fin 100))
             else sub_to_view_ratio)
      in bind_err
           (if apv = None \<and> avd \<noteq> None then
              bind_err (safe_float fl (dict_get metrics ''duration_seconds'')) (\<lambda>duration.
                Inr (if positive duration
                     then Some (fmul fl (fdiv fl (the avd) (the duration)) (Fin 100))
                     else apv))
            else Inr apv) (\<lambda>apv.
     (let calls =
     [
      (''CTR'', ctr, score_higher_better ctr 6.0 3.5,
       ''Low CTR: test 2-3 stronger title/thumbnail combinations with clearer promise.'', None),
      (''AVD (sec)'', avd, score_higher_better avd 240 90,
       ''Low AVD: tighten first 30 seconds and remove slow segments.'', None),
      (''APV (%)'', apv, score_higher_better apv 45 30,
       ''Low APV: improve pacing and set up stronger open loops.'', None),
      (''Engagement Rate (%)'', engagement_rate, score_higher_better engagement_rate 4.0 2.0,
       ''Low engagement: ask a specific comment question and add a stronger CTA.'', None),
      (''Audience Retention (%)'', audience_retention, score_higher_better audience_retention 45 30,
       ''Low retention: inspect drop-off timestamps and trim weak sections.'', None),
      (''Relative Retention (%)'', relative_retention, score_higher_better relative_retention 100 80,
       ''Relative retention is below peers: tighten storytelling and add pattern interrupts.'', None),
      (''Sub-to-View Ratio (%)'', sub_to_view_ratio, score_higher_better sub_to_view_ratio 1.0 0.3,
       ''Low subscriber conversion: explicitly state why viewers should subscribe.'', None),
      (''End Screen CTR (%)'', end_screen_ctr, score_higher_better end_screen_ctr 1.0 0.5,
       ''Low end-screen CTR: simplify to one clear next-video recommendation.'', None),
      (''Shares'', shares, score_higher_better shares 50 10,
       ''Low shares: add practical takeaways people can send to others.'', None),
      (''Comments'', comments, score_higher_better comments 25 5,
       ''Low comments: pin a polarizing or specific question.'', None),
      (''Subscribers Gained'', subs_gained, score_higher_better subs_gained 20 5,
       ''Few subscribers gained: clarify channel value proposition in intro and outro.'', None),
      (''Subscribers Lost'', subs_lost, score_lower_better subs_lost 5 20,
       ''High subscriber loss: align content topic with audience expectations.'', None),
      (''Returning Viewers'', returning_viewers, score_higher_better returning_viewers 1000 200,
       ''Low returning viewers: publish consistent series and recurring formats.'', None),
      (''New Viewers'', new_viewers, score_higher_better new_viewers 1000 200,
       ''Low new viewers: improve search intent alignment and topic selection.'', None),
      (''Card Teaser Clicks'', card_clicks, score_higher_better card_clicks 30 8,
       ''Low card clicks: place cards at high-retention moments.'', None),
      (''RPM'', rpm, score_higher_better rpm 4.0 1.5,
       ''Low RPM: target higher-intent topics and optimize audience geography.'', None),
      (''CPM'', cpm, score_higher_better cpm 8.0 3.0,
       ''Low CPM: adjust content niche toward stronger advertiser demand.'', None),
      (''Playback-based CPM'', playback_cpm, score_higher_better playback_cpm 8.0 3.0,
       ''Low playback CPM: improve ad-friendly pacing and topic fit.'', None),
      (''Estimated Revenue'', estimated_revenue, score_higher_better estimated_revenue 100 20,
       ''Low revenue: focus on videos with stronger retention and ad suitability.'', None)
     ]
     @ (if views \<noteq> None \<and> impressions \<noteq> None \<and> fgt (the impressions) 0 then
          (let view_from_impressions =
                 Some (fmul fl (fdiv fl (the views) (the impressions)) (Fin 100))
           in [(''View/Impression Ratio (%)'', view_from_impressions,
                score_higher_better view_from_impressions 6.0 3.0,
                ''Low views from impressions: test new packaging (title/thumbnail) and improve hook delivery.'',
                None)])
        else [])
     @ (if likes \<noteq> None \<and> dislikes \<noteq> None \<and> fgt (fadd fl (the likes) (the dislikes)) 0 then
          (let like_ratio =
                 Some (fmul fl (fdiv fl (the likes) (fadd fl (the likes) (the dislikes))) (Fin 100))
           in [(''Like Ratio (%)'', like_ratio,
                score_higher_better like_ratio 95 85,
                ''Low like ratio: clarify expectations in title and deliver on promise sooner.'',
                None)])
        else [])
      in Inr (summarize calls))))
     )))))))))))))))))))))))))"

text \<open>The scores a metric can have, and the entries of the result they lead to.\<close>

definition score_ok :: "int option \<Rightarrow> bool" where
  "score_ok s = (s = None \<or> s = Some 45 \<or> s = Some 75 \<or> s = Some 95)"

definition metric_ok :: "metric \<Rightarrow> bool" where
  "metric_ok e = ((m_score e = None \<and> m_rating e = ''No data'')
                  \<or> m_score e = Some 45 \<or> m_score e = Some 75 \<or> m_score e = Some 95)"

text \<open>The scores that are present in a result.\<close>

definition present_scores :: "analysis \<Rightarrow> int list" where
  "present_scores res = map the (filter (\<lambda>s. s \<noteq> None) (map m_score (r_metrics res)))"

text \<open>No integer among the values of the metrics object is beyond the range of a float.\<close>

definition in_float_range :: "(string \<times> pyval) list \<Rightarrow> bool" where
  "in_float_range d = list_all (\<lambda>(k, v). case v of PInt n \<Rightarrow> \<bar>n\<bar> < float_limit | _ \<Rightarrow> True) d"

section \<open>HTTP Boundary: reading a job\<close>

text \<open>
  A response is the JSON payload with its status code, or the file that
  \<^verbatim>\<open>send_file\<close> streams with its download name.
\<close>

datatype response =
    Response nat "(string \<times> pyval) list"
  | FileResponse path string









section \<open>URL Validator\<close>

text \<open>
  \<^verbatim>\<open>urllib.parse.urlparse\<close> as CPython 3.11 defines it, for strings of code points
  below 256 (on which the check of the netloc under NFKC normalization never raises).
  The check of a bracketed host, which parses an IP address, is the parameter
  \<open>check_bracketed_host\<close>: it gives the message of the \<^verbatim>\<open>ValueError\<close> it raises, if any.
\<close>

record parse_result =
  p_scheme :: string
  p_netloc :: string
  p_path :: string
  p_params :: string
  p_query :: string
  p_fragment :: string

definition ascii_alpha :: "char \<Rightarrow> bool" where
  "ascii_alpha c =
     (let n = (of_char c :: nat) in (65 \<le> n \<and> n \<le> 90) \<or> (97 \<le> n \<and> n \<le> 122))"

definition ascii_digit :: "char \<Rightarrow> bool" where
  "ascii_digit c = (let n = (of_char c :: nat) in 48 \<le> n \<and> n \<le> 57)"

definition scheme_char :: "char \<Rightarrow> bool" where
  "scheme_char c = (ascii_alpha c \<or> ascii_digit c \<or> c \<in> set ''+-.'')"

text \<open>\<^verbatim>\<open>s.split(c, 1)\<close> for a string that contains \<open>c\<close>: the parts before and after
  the first occurrence.\<close>

definition split_first :: "char \<Rightarrow> string \<Rightarrow> string \<times> string" where
  "split_first c s = (takeWhile (\<lambda>x. x \<noteq> c) s, drop 1 (dropWhile (\<lambda>x. x \<noteq> c) s))"

definition uses_params :: "string list" where
  "uses_params =
     [[], ''ftp'', ''hdl'', ''prospero'', ''http'', ''imap'', ''https'', ''shttp'', ''rtsp'',
      ''rtsps'', ''rtspu'', ''sip'', ''sips'', ''mms'', ''sftp'', ''tel'']"

definition urlsplit ::
    "(string \<Rightarrow> string option) \<Rightarrow> string
     \<Rightarrow> py_error + string \<times> string \<times> string \<times> string \<times> string" where
  "urlsplit check_bracketed_host url0 =
     (let url = dropWhile (\<lambda>c. (of_char c :: nat) \<le> 32) url0;
          url = filter (\<lambda>c. (of_char c :: nat) \<notin> {9, 13, 10}) url;
          pre = takeWhile (\<lambda>c. c \<noteq> CHR '':'') url;
          has_scheme = (CHR '':'' \<in> set url \<and> pre \<noteq> [] \<and> ascii_alpha (hd url)
                        \<and> list_all scheme_char pre);
          scheme = (if has_scheme then lower pre else []);
          url = (if has_scheme then drop (length pre + 1) url else url);
          has_netloc = (take 2 url = ''//'');
          netloc = (if has_netloc then takeWhile (\<lambda>c. c \<notin> set ''/?#'') (drop 2 url) else []);
          url = (if has_netloc then dropWhile (\<lambda>c. c \<notin> set ''/?#'') (drop 2 url) else url);
          lb = (CHR ''['' \<in> set netloc);
          rb = (CHR '']'' \<in> set netloc);
          bracketed_host =
            takeWhile (\<lambda>c. c \<noteq> CHR '']'') (drop 1 (dropWhile (\<lambda>c. c \<noteq> CHR ''['') netloc))
      in if has_netloc \<and> lb \<noteq> rb then Inl (ValueError ''Invalid IPv6 URL'')
         else if has_netloc \<and> lb \<and> rb \<and> check_bracketed_host bracketed_host \<noteq> None
         then Inl (ValueError (the (check_bracketed_host bracketed_host)))
         else
           (let fragment = (if CHR ''#'' \<in> set url then snd (split_first CHR ''#'' url) else []);
                url = (if CHR ''#'' \<in> set url then fst (split_first CHR ''#'' url) else url);
                query = (if CHR ''?'' \<in> set url then snd (split_first CHR ''?'' url) else []);
                url = (if CHR ''?'' \<in> set url then fst (split_first CHR ''?'' url) else url)
            in Inr (scheme, netloc, url, query, fragment)))"

definition splitparams :: "string \<Rightarrow> string \<times> string" where
  "splitparams url =
     (let k = (if CHR ''/'' \<in> set url then nat (rfind CHR ''/'' url) else 0);
          rest = drop k url
      in if CHR '';'' \<notin> set rest then (url, [])
         else (take k url @ takeWhile (\<lambda>c. c \<noteq> CHR '';'') rest,
               drop 1 (dropWhile (\<lambda>c. c \<noteq> CHR '';'') rest)))"

definition urlparse :: "(string \<Rightarrow> string option) \<Rightarrow> string \<Rightarrow> py_error + parse_result" where
  "urlparse check_bracketed_host url0 =
     (case urlsplit check_bracketed_host url0 of
        Inl exc \<Rightarrow> Inl exc
      | Inr (scheme, netloc, url, query, fragment) \<Rightarrow>
          (let (url, params) =
                 (if scheme \<in> set uses_params \<and> CHR '';'' \<in> set url then splitparams url
                  else (url, []))
           in Inr \<lparr> p_scheme = scheme, p_netloc = netloc, p_path = url, p_params = params,
                    p_query = query, p_fragment = fragment \<rparr>))"

text \<open>
  \<^verbatim>\<open>parse_qs\<close> with its default arguments. \<^verbatim>\<open>unquote\<close> replaces \<open>%XY\<close> by the byte
  \<open>XY\<close>; Python then decodes the bytes as UTF-8, which leaves bytes below 128 as they
  are and turns the others into characters outside ASCII. The model keeps every byte as
  a character, which agrees with Python on whether the result is a given ASCII string.
\<close>

definition hex_value :: "char \<Rightarrow> nat option" where
  "hex_value c =
     (let n = (of_char c :: nat) in
      if 48 \<le> n \<and> n \<le> 57 then Some (n - 48)
      else if 65 \<le> n \<and> n \<le> 70 then Some (n - 55)
      else if 97 \<le> n \<and> n \<le> 102 then Some (n - 87)
      else None)"

fun unquote :: "string \<Rightarrow> string" where
  "unquote (a # b # c # rest) =
     (if a = CHR ''%'' \<and> hex_value b \<noteq> None \<and> hex_value c \<noteq> None
      then char_of (16 * the (hex_value b) + the (hex_value c)) # unquote rest
      else a # unquote (b # c # rest))"
| "unquote s = s"

definition unquote_plus :: "string \<Rightarrow> string" where
  "unquote_plus s = unquote (map (\<lambda>c. if c = CHR ''+'' then CHR '' '' else c) s)"

definition parse_qsl :: "string \<Rightarrow> (string \<times> string) list" where
  "parse_qsl qs =
     (if qs = [] then []
      else concat (map (\<lambda>name_value.
             if name_value \<noteq> [] then
               (let nm = takeWhile (\<lambda>c. c \<noteq> CHR ''='') name_value;
                    v = drop 1 (dropWhile (\<lambda>c. c \<noteq> CHR ''='') name_value)
                in if v \<noteq> [] then [(unquote_plus nm, unquote_plus v)] else [])
             else [])
           (split_on CHR ''&'' qs)))"

text \<open>\<^verbatim>\<open>k in parse_qs(qs)\<close>.\<close>

definition in_parse_qs :: "string \<Rightarrow> string \<Rightarrow> bool" where
  "in_parse_qs k qs = (k \<in> set (map fst (parse_qsl qs)))"

text \<open>The three validators start alike: a URL without \<open>://\<close> gets the prefix
  \<open>https://\<close>, and the host is the lower-cased netloc with every \<open>www.\<close> removed.\<close>

definition parse_input :: "(string \<Rightarrow> string option) \<Rightarrow> string \<Rightarrow> py_error + parse_result" where
  "parse_input chk url = urlparse chk (if contains url ''://'' then url else ''https://'' @ url)"

definition host_of :: "parse_result \<Rightarrow> string" where
  "host_of parsed = remove_all ''www.'' (lower (p_netloc parsed))"

definition is_valid_youtube_url :: "(string \<Rightarrow> string option) \<Rightarrow> string \<Rightarrow> py_error + bool" where
  "is_valid_youtube_url chk url =
     (if url = [] then Inr False
      else
        (case parse_input chk url of
           Inl exc \<Rightarrow> Inl exc
         | Inr parsed \<Rightarrow>
             (let host = host_of parsed in
              if host = ''youtu.be'' then Inr (strip_chars ''/'' (p_path parsed) \<noteq> [])
              else if host \<in> {''youtube.com'', ''m.youtube.com''} then
                (if p_path parsed = ''/watch'' then Inr (in_parse_qs ''v'' (p_query parsed))
                 else if startswith (p_path parsed) ''/shorts/''
                 then Inr (drop (length ''/shorts/'') (p_path parsed) \<noteq> [])
                 else Inr False)
              else Inr False)))"

definition is_valid_tiktok_url :: "(string \<Rightarrow> string option) \<Rightarrow> string \<Rightarrow> py_error + bool" where
  "is_valid_tiktok_url chk url =
     (if url = [] then Inr False
      else
        (case parse_input chk url of
           Inl exc \<Rightarrow> Inl exc
         | Inr parsed \<Rightarrow>
             (let host = host_of parsed in
              if host \<in> {''tiktok.com'', ''m.tiktok.com'', ''vm.tiktok.com'', ''vt.tiktok.com''}
              then Inr (strip_chars ''/'' (p_path parsed) \<noteq> [])
              else Inr False)))"

definition is_valid_instagram_url :: "(string \<Rightarrow> string option) \<Rightarrow> string \<Rightarrow> py_error + bool" where
  "is_valid_instagram_url chk url =
     (if url = [] then Inr False
      else
        (case parse_input chk url of
           Inl exc \<Rightarrow> Inl exc
         | Inr parsed \<Rightarrow>
             (let host = host_of parsed in
              if host \<notin> {''instagram.com'', ''m.instagram.com''} then Inr False
              else Inr (startswith (p_path parsed) ''/reel/'' \<or> startswith (p_path parsed) ''/p/''
                        \<or> startswith (p_path parsed) ''/tv/''))))"

text \<open>The check of a bracketed host for the examples: no bracketed host is valid.\<close>

definition no_brackets :: "string \<Rightarrow> string option" where
  "no_brackets h = Some ''invalid bracketed host''"

section \<open>HTTP Boundary: creating a job\<close>

text \<open>
  The body of a request is the value \<^verbatim>\<open>request.get_json(silent=True)\<close> gives:
  \<^verbatim>\<open>None\<close> when there is no JSON, else any JSON value. \<^verbatim>\<open>data.get\<close> on a value
  that is true and not a dict, and \<^verbatim>\<open>.strip()\<close> on one that is true and not a string,
  raise \<^verbatim>\<open>AttributeError\<close>. An exception that leaves a handler is answered by the
  framework with status 500; the handler's result is then \<open>Inl\<close>.
\<close>

definition request_data :: "pyval \<Rightarrow> py_error + (string \<times> pyval) list" where
  "request_data body =
     (if \<not> truthy body then Inr []
      else (case body of
              PDict d \<Rightarrow> Inr d
            | _ \<Rightarrow> Inl (AttributeError ''object has no attribute get'')))"

text \<open>\<^verbatim>\<open>(data.get(k) or default).strip()\<close>.\<close>

definition str_field :: "(string \<times> pyval) list \<Rightarrow> string \<Rightarrow> string \<Rightarrow> py_error + string" where
  "str_field d k dflt =
     (let v = dict_get d k in
      if \<not> truthy v then Inr (py_strip dflt)
      else (case v of
              PStr s \<Rightarrow> Inr (py_strip s)
            | _ \<Rightarrow> Inl (AttributeError ''object has no attribute strip'')))"

text \<open>\<^verbatim>\<open>bool(data.get(k, True))\<close>.\<close>

definition bool_field :: "(string \<times> pyval) list \<Rightarrow> string \<Rightarrow> bool" where
  "bool_field d k = (case map_of d k of None \<Rightarrow> True | Some v \<Rightarrow> truthy v)"

text \<open>The thread a handler starts, with the arguments of its target.\<close>

datatype thread =
    DownloadJob string string string string bool "string option" "string option"
  | SocialJob string string "string option" "string option"

type_synonym handled = "(py_error + response) \<times> store \<times> thread option"

definition bad_request :: "store \<Rightarrow> string \<Rightarrow> handled" where
  "bad_request st msg = (Inr (Response 400 [(''error'', PStr msg)]), st, None)"

text \<open>Lines 555-561: the fields of a download request.\<close>

definition download_fields ::
    "(string \<times> pyval) list \<Rightarrow> py_error + string \<times> string \<times> string \<times> bool \<times> string \<times> string" where
  "download_fields d =
     bind_err (str_field d ''url'' []) (\<lambda>url.
     bind_err (str_field d ''format'' ''mp4'') (\<lambda>fmt.
     bind_err (str_field d ''quality'' ''1080p60'') (\<lambda>quality.
     bind_err (str_field d ''output_dir'' []) (\<lambda>output_dir_raw.
     bind_err (str_field d ''output_name'' []) (\<lambda>output_name_raw.
       Inr (url, lower fmt, quality, bool_field d ''sound_on'', output_dir_raw,
            output_name_raw))))))"

definition start_download ::
    "world \<Rightarrow> (string \<Rightarrow> string option) \<Rightarrow> store \<Rightarrow> pyval \<Rightarrow> 128 word \<Rightarrow> pyfloat \<Rightarrow> handled" where
  "start_download w chk st body u now =
     (case bind_err (request_data body) download_fields of
        Inl exc \<Rightarrow> (Inl exc, st, None)
      | Inr (url, fmt, quality, sound_on, output_dir_raw, output_name_raw) \<Rightarrow>
          (case is_valid_youtube_url chk url of
             Inl exc \<Rightarrow> (Inl exc, st, None)
           | Inr valid \<Rightarrow>
               if \<not> valid then bad_request st ''Invalid YouTube URL.''
               else if fmt \<notin> {''mp4'', ''mp3''} then bad_request st ''Format must be mp4 or mp3.''
               else if quality \<notin> {''360p'', ''720p'', ''1080p60''}
               then bad_request st ''Quality must be 360p, 720p, or 1080p60.''
               else if fmt = ''mp3'' \<and> \<not> sound_on
               then bad_request st ''Sound Off is not valid for MP3 downloads.''
               else
                 (case (if output_dir_raw \<noteq> []
                        then map_sum id (\<lambda>p. Some (path_str p)) (expanduser w (Path output_dir_raw))
                        else Inr None) of
                    Inl exc \<Rightarrow> bad_request st ''Invalid output folder path.''
                  | Inr output_dir \<Rightarrow>
                      (let output_name =
                             (if output_name_raw \<noteq> []
                              then sanitize_file_basename (Some output_name_raw) else None)
                       in if output_name_raw \<noteq> [] \<and> output_name = None
                          then bad_request st ''Invalid output file name.''
                          else
                            (let job_id = uuid_hex u in
                             (Inr (Response 200 [(''job_id'', PStr job_id)]),
                              insert_job st job_id now,
                              Some (DownloadJob job_id url fmt quality sound_on output_dir
                                      output_name)))))))"

definition parse_output_settings ::
    "world \<Rightarrow> (string \<times> pyval) list
     \<Rightarrow> py_error + string option \<times> string option \<times> string option" where
  "parse_output_settings w d =
     bind_err (str_field d ''output_dir'' []) (\<lambda>output_dir_raw.
     bind_err (str_field d ''output_name'' []) (\<lambda>output_name_raw.
       (case (if output_dir_raw \<noteq> []
              then map_sum id (\<lambda>p. Some (path_str p)) (expanduser w (Path output_dir_raw))
              else Inr None) of
          Inl exc \<Rightarrow> Inr (None, None, Some ''Invalid output folder path.'')
        | Inr output_dir \<Rightarrow>
            (let output_name =
                   (if output_name_raw \<noteq> []
                    then sanitize_file_basename (Some output_name_raw) else None)
             in if output_name_raw \<noteq> [] \<and> output_name = None
                then Inr (None, None, Some ''Invalid output file name.'')
                else Inr (output_dir, output_name, None)))))"

text \<open>\<^verbatim>\<open>download_tiktok\<close> and \<^verbatim>\<open>download_instagram\<close> differ in the validator and its
  message only.\<close>

definition social_download ::
    "((string \<Rightarrow> string option) \<Rightarrow> string \<Rightarrow> py_error + bool) \<Rightarrow> string \<Rightarrow> world
     \<Rightarrow> (string \<Rightarrow> string option) \<Rightarrow> store \<Rightarrow> pyval \<Rightarrow> 128 word \<Rightarrow> pyfloat \<Rightarrow> handled" where
  "social_download validator invalid_msg w chk st body u now =
     (case bind_err (request_data body) (\<lambda>d.
             bind_err (str_field d ''url'' []) (\<lambda>url. Inr (d, url))) of
        Inl exc \<Rightarrow> (Inl exc, st, None)
      | Inr (d, url) \<Rightarrow>
          (case validator chk url of
             Inl exc \<Rightarrow> (Inl exc, st, None)
           | Inr valid \<Rightarrow>
               if \<not> valid then bad_request st invalid_msg
               else
                 (case parse_output_settings w d of
                    Inl exc \<Rightarrow> (Inl exc, st, None)
                  | Inr (output_dir, output_name, error) \<Rightarrow>
                      if error \<noteq> None \<and> error \<noteq> Some [] then bad_request st (the error)
                      else
                        (let (job_id, st') = create_job st u now in
                         (Inr (Response 200 [(''job_id'', PStr job_id)]),
                          st',
                          Some (SocialJob job_id url output_dir output_name))))))"

definition download_tiktok ::
    "world \<Rightarrow> (string \<Rightarrow> string option) \<Rightarrow> store \<Rightarrow> pyval \<Rightarrow> 128 word \<Rightarrow> pyfloat \<Rightarrow> handled" where
  "download_tiktok = social_download is_valid_tiktok_url ''Invalid TikTok URL.''"

definition download_instagram ::
    "world \<Rightarrow> (string \<Rightarrow> string option) \<Rightarrow> store \<Rightarrow> pyval \<Rightarrow> 128 word \<Rightarrow> pyfloat \<Rightarrow> handled" where
  "download_instagram = social_download is_valid_instagram_url ''Invalid Instagram URL.''"

text \<open>What the claim on validation errors promises of a handler's result: status 400
  with a message, the store as it was and no thread.\<close>

definition rejected :: "store \<Rightarrow> handled \<Rightarrow> bool" where
  "rejected st h =
     (\<exists>msg. msg \<noteq> [] \<and> h = (Inr (Response 400 [(''error'', PStr msg)]), st, None))"

text \<open>A handler's result that ends in an exception: status 500, the store as it was and
  no thread.\<close>

definition crashed :: "store \<Rightarrow> handled \<Rightarrow> bool" where
  "crashed st h = (\<exists>exc. h = (Inl exc, st, None))"

definition accepted :: "store \<Rightarrow> 128 word \<Rightarrow> pyfloat \<Rightarrow> handled \<Rightarrow> bool" where
  "accepted st u now h =
     (\<exists>th. h = (Inr (Response 200 [(''job_id'', PStr (uuid_hex u))]),
                insert_job st (uuid_hex u) now, Some th))"

section \<open>Properties of the Format Policy\<close>





section \<open>Properties of the string operations\<close>

















section \<open>Properties of the Path Sanitizer\<close>




section \<open>Properties of the Job Store\<close>

lemma dom_initial_job: "dom (initial_job now) = job_keys"
  by (auto simp: initial_job_def job_keys_def split: if_splits)

lemma job_of_insert_job:
  "job_of (insert_job st job_id now) i =
     (if i = job_id then Some (initial_job now)
      else map_option (\<lambda>a. if a = next_addr st then initial_job now else heap st a) (jobs st i))"
  by (simp add: job_of_def insert_job_def map_option_case split: option.splits)

lemma job_of_update_job:
  "job_of (update_job st job_id kw) i =
     (case jobs st job_id of
        None \<Rightarrow> job_of st i
      | Some a \<Rightarrow> map_option (\<lambda>b. if b = a then heap st a ++ map_of kw else heap st b) (jobs st i))"
  by (simp add: job_of_def update_job_def map_option_case split: option.splits)

lemma complete_insert: "complete st \<Longrightarrow> complete (insert_job st job_id now)"
  unfolding complete_def
  by (auto simp: insert_job_def dom_initial_job ran_def split: if_splits)

lemma complete_update: "complete st \<Longrightarrow> complete (update_job st job_id kw)"
  unfolding complete_def
  by (auto simp: update_job_def ran_def split: option.splits if_splits)

lemma complete_apply_op: "complete st \<Longrightarrow> complete (apply_op st op)"
  by (cases op) (simp_all add: create_job_def Let_def complete_insert complete_update)

lemma complete_run_ops: "complete st \<Longrightarrow> complete (run_ops st ops)"
  unfolding run_ops_def
  by (induction ops arbitrary: st) (simp_all add: complete_apply_op)

lemma complete_empty: "complete empty_store"
  by (simp add: complete_def empty_store_def)

lemma complete_job_of: "complete st \<Longrightarrow> job_of st i = Some j \<Longrightarrow> job_keys \<subseteq> dom j"
  by (auto simp: complete_def job_of_def ran_def)






lemma initial_job_values:
  "initial_job now ''status'' = Some (PStr ''queued'')
   \<and> initial_job now ''progress'' = Some (PInt 0)
   \<and> initial_job now ''error'' = Some PNone
   \<and> initial_job now ''file_path'' = Some PNone
   \<and> initial_job now ''file_name'' = Some PNone
   \<and> initial_job now ''saved_dir'' = Some PNone
   \<and> initial_job now ''created_at'' = Some (PFloat now)"
  by (simp add: initial_job_def)

lemma create_job_lookup:
  "job_of (snd (create_job st u now)) (fst (create_job st u now)) = Some (initial_job now)
   \<and> job_of (insert_job st i now) i = Some (initial_job now)"
  by (simp add: create_job_def Let_def job_of_insert_job)

lemma keys_present:
  assumes "job_keys \<subseteq> dom j"
  shows "j ''status'' \<noteq> None \<and> j ''progress'' \<noteq> None \<and> j ''error'' \<noteq> None"
proof -
  have "''status'' \<in> job_keys" "''progress'' \<in> job_keys" "''error'' \<in> job_keys"
    by (simp_all add: job_keys_def)
  with assms show ?thesis by blast
qed

text \<open>
  Claim C10: a job record is created with the seven fields \<open>status\<close>, \<open>progress\<close>,
  \<open>error\<close>, \<open>file_path\<close>, \<open>file_name\<close>, \<open>saved_dir\<close> and \<open>created_at\<close>, with
  \<open>status = queued\<close>, \<open>progress = 0\<close> and \<^verbatim>\<open>None\<close> for \<open>error\<close> and the file fields;
  and after any sequence of creations and updates every record of the store still has
  all of them, so a read of \<open>status\<close>, \<open>progress\<close> or \<open>error\<close> finds its key.
\<close>

theorem job_record_fields:
  assumes "job_of (run_ops empty_store ops) job_id = Some j"
  shows "job_of (snd (create_job st u now)) (fst (create_job st u now)) = Some (initial_job now)
         \<and> job_of (insert_job st i now) i = Some (initial_job now)
         \<and> dom (initial_job now) = job_keys
         \<and> initial_job now ''status'' = Some (PStr ''queued'')
         \<and> initial_job now ''progress'' = Some (PInt 0)
         \<and> initial_job now ''error'' = Some PNone
         \<and> initial_job now ''file_path'' = Some PNone
         \<and> initial_job now ''file_name'' = Some PNone
         \<and> initial_job now ''saved_dir'' = Some PNone
         \<and> initial_job now ''created_at'' = Some (PFloat now)
         \<and> job_keys \<subseteq> dom j
         \<and> j ''status'' \<noteq> None \<and> j ''progress'' \<noteq> None \<and> j ''error'' \<noteq> None"
proof -
  have "complete (run_ops empty_store ops)"
    using complete_empty by (rule complete_run_ops)
  then have k: "job_keys \<subseteq> dom j" using assms by (rule complete_job_of)
  show ?thesis
    using create_job_lookup [of st u now i] dom_initial_job [of now] initial_job_values [of now]
      k keys_present [OF k]
    by (simp only: simp_thms)
qed

theorem job_record_fields_witness:
  "job_of (run_ops empty_store
             [Create 255 (Fin 0), Update (uuid_hex 255) [(''progress'', PInt 50)]])
          (uuid_hex 255)
     = Some (initial_job (Fin 0) ++ map_of [(''progress'', PInt 50)])
   \<and> job_keys \<subseteq> dom (initial_job (Fin 0) ++ map_of [(''progress'', PInt 50)])
   \<and> (initial_job (Fin 0) ++ map_of [(''progress'', PInt 50)]) ''status'' \<noteq> None"
proof -
  have h: "job_of (run_ops empty_store
                     [Create 255 (Fin 0), Update (uuid_hex 255) [(''progress'', PInt 50)]])
                  (uuid_hex 255)
             = Some (initial_job (Fin 0) ++ map_of [(''progress'', PInt 50)])"
    by (simp add: run_ops_def create_job_def Let_def job_of_update_job job_of_insert_job
          empty_store_def insert_job_def)
  have "job_keys \<subseteq> dom (initial_job (Fin 0) ++ map_of [(''progress'', PInt 50)])
   \<and> (initial_job (Fin 0) ++ map_of [(''progress'', PInt 50)]) ''status'' \<noteq> None"
    using job_record_fields [OF h, of empty_store 0 "Fin 0" "''x''"] by (simp only: simp_thms)
  with h show ?thesis by (simp only: simp_thms)
qed

section \<open>Properties of the output basename\<close>



section \<open>Properties of the Job Runner\<close>

lemma job_of_update_same:
  "job_of (update_job st job_id kw) job_id = map_option (\<lambda>j. j ++ map_of kw) (job_of st job_id)"
  by (simp add: job_of_def update_job_def split: option.splits)

lemma hook_shape:
  assumes "kw \<in> set (hook w d)"
  shows "\<exists>n. kw = [(''progress'', PInt n)] \<and> 1 \<le> n \<and> n \<le> 99"
  using assms by (auto simp: hook_def Let_def split: hook_event.splits if_splits)

lemma hooks_shape:
  assumes "kw \<in> set (concat (map (hook w) events))"
  shows "\<exists>n. kw = [(''progress'', PInt n)] \<and> 1 \<le> n \<and> n \<le> 99"
  using assms hook_shape by auto

lemma running_hook_update:
  assumes "running st job_id" "1 \<le> n" "n \<le> 99"
  shows "running (update_job st job_id [(''progress'', PInt n)]) job_id"
  using assms
  by (auto simp: running_def progress_of_def status_of_def job_of_update_same
      split: option.splits)

lemma store_trace_running:
  assumes "running st job_id"
    and "\<forall>kw \<in> set kws. \<exists>n. kw = [(''progress'', PInt n)] \<and> 1 \<le> n \<and> n \<le> 99"
  shows "(\<forall>s \<in> set (store_trace st job_id kws). running s job_id)
         \<and> running (apply_updates st job_id kws) job_id"
  using assms
proof (induction kws arbitrary: st)
  case Nil
  then show ?case by (simp add: apply_updates_def)
next
  case (Cons kw kws)
  from Cons.prems(2) obtain n where n: "kw = [(''progress'', PInt n)]" "1 \<le> n" "n \<le> 99"
    by auto
  have r: "running (update_job st job_id kw) job_id"
    unfolding n(1) using Cons.prems(1) n(2,3) by (rule running_hook_update)
  have "(\<forall>s \<in> set (store_trace (update_job st job_id kw) job_id kws). running s job_id)
         \<and> running (apply_updates (update_job st job_id kw) job_id kws) job_id"
    using r Cons.prems(2) by (intro Cons.IH) auto
  then show ?case using Cons.prems(1) by (simp add: apply_updates_def)
qed

lemma store_trace_snoc:
  "store_trace st job_id (kws @ [kw])
     = store_trace st job_id kws @ [update_job (apply_updates st job_id kws) job_id kw]"
  by (induction kws arbitrary: st) (simp_all add: apply_updates_def)

lemma running_inv: "running s job_id \<Longrightarrow> progress_inv s job_id"
  by (auto simp: running_def progress_inv_def)

lemma completed_inv:
  "running s job_id \<Longrightarrow> progress_inv (update_job s job_id (completed_update p)) job_id"
  by (auto simp: running_def progress_inv_def progress_of_def status_of_def job_of_update_same
      completed_update_def split: option.splits)

lemma error_inv:
  "running s job_id \<Longrightarrow> progress_inv (update_job s job_id (error_update m)) job_id"
  by (auto simp: running_def progress_inv_def progress_of_def status_of_def job_of_update_same
      error_update_def split: option.splits)

lemma initial_running:
  "job_of st job_id = Some (initial_job now) \<Longrightarrow> running st job_id"
  by (simp add: running_def progress_of_def status_of_def initial_job_def)

lemma trace_inv:
  assumes "running st job_id"
    and "\<forall>kw \<in> set kws. \<exists>n. kw = [(''progress'', PInt n)] \<and> 1 \<le> n \<and> n \<le> 99"
    and "fin = completed_update p \<or> fin = error_update m"
    and "us = [] \<or> us = kws @ [fin]"
    and "s \<in> set (store_trace st job_id us)"
  shows "progress_inv s job_id"
proof -
  note r = store_trace_running [OF assms(1,2)]
  from assms(4) show ?thesis
  proof
    assume "us = []"
    with assms(5) have "s = st" by simp
    with assms(1) show ?thesis by (simp add: running_inv)
  next
    assume u: "us = kws @ [fin]"
    with assms(5) have "s \<in> set (store_trace st job_id kws)
        \<or> s = update_job (apply_updates st job_id kws) job_id fin"
      by (auto simp: store_trace_snoc)
    then show ?thesis
    proof
      assume "s \<in> set (store_trace st job_id kws)"
      with r show ?thesis by (blast intro: running_inv)
    next
      assume s: "s = update_job (apply_updates st job_id kws) job_id fin"
      from r have "running (apply_updates st job_id kws) job_id" by blast
      with s assms(3) show ?thesis by (auto intro: completed_inv error_inv)
    qed
  qed
qed

lemma download_updates_shape:
  "\<exists>kws fin p m.
     (\<forall>kw \<in> set kws. \<exists>n. kw = [(''progress'', PInt n)] \<and> 1 \<le> n \<and> n \<le> 99)
     \<and> (fin = completed_update p \<or> fin = error_update m)
     \<and> (run_download_job_updates w job_id url fmt quality sound_on output_dir output_name = []
         \<or> run_download_job_updates w job_id url fmt quality sound_on output_dir output_name
            = kws @ [fin])"
proof (cases "get_format_selector fmt quality sound_on")
  case (Inl exc)
  then have "run_download_job_updates w job_id url fmt quality sound_on output_dir output_name
      = [] @ [error_update (str_exc exc)]"
    by (simp add: run_download_job_updates_def)
  then show ?thesis by (metis empty_iff list.set(1))
next
  case sel: (Inr format_selector)
  show ?thesis
  proof (cases "target_dir_of w output_dir")
    case (Inl exc)
    then have "run_download_job_updates w job_id url fmt quality sound_on output_dir output_name = []"
      using sel by (simp add: run_download_job_updates_def)
    then show ?thesis by (metis empty_iff list.set(1))
  next
    case td: (Inr target_dir)
    show ?thesis
    proof (cases "mkdir w target_dir")
      case (Some exc)
      then have "run_download_job_updates w job_id url fmt quality sound_on output_dir output_name
        = [] @ [error_update (''Cannot create download folder: '' @ exc)]"
        using sel td by (simp add: run_download_job_updates_def)
      then show ?thesis by (metis empty_iff list.set(1))
    next
      case None
      obtain events result where er: "extract_info w (download_opts w format_selector
          (outtmpl_of target_dir (safe_name_of job_id output_name)) fmt sound_on) url = (events, result)"
        by (cases "extract_info w (download_opts w format_selector
          (outtmpl_of target_dir (safe_name_of job_id output_name)) fmt sound_on) url") auto
      have "\<exists>fin p m. (fin = completed_update p \<or> fin = error_update m)
        \<and> run_download_job_updates w job_id url fmt quality sound_on output_dir output_name
           = concat (map (hook w) events) @ [fin]"
        using sel td None er
        by (auto simp: run_download_job_updates_def Let_def split: sum.splits py_error.splits)
      then show ?thesis using hooks_shape [of _ w events] by blast
    qed
  qed
qed

lemma social_updates_shape:
  "\<exists>kws fin p m.
     (\<forall>kw \<in> set kws. \<exists>n. kw = [(''progress'', PInt n)] \<and> 1 \<le> n \<and> n \<le> 99)
     \<and> (fin = completed_update p \<or> fin = error_update m)
     \<and> (run_social_download_job_updates w job_id url output_dir output_name = []
         \<or> run_social_download_job_updates w job_id url output_dir output_name = kws @ [fin])"
proof (cases "target_dir_of w output_dir")
  case (Inl exc)
  then have "run_social_download_job_updates w job_id url output_dir output_name = []"
    by (simp add: run_social_download_job_updates_def)
  then show ?thesis by (metis empty_iff list.set(1))
next
  case td: (Inr target_dir)
  show ?thesis
  proof (cases "mkdir w target_dir")
    case (Some exc)
    then have "run_social_download_job_updates w job_id url output_dir output_name
      = [] @ [error_update (''Cannot create download folder: '' @ exc)]"
      using td by (simp add: run_social_download_job_updates_def)
    then show ?thesis by (metis empty_iff list.set(1))
  next
    case None
    obtain events result where er: "extract_info w (social_opts w
        (outtmpl_of target_dir (safe_name_of job_id output_name))) url = (events, result)"
      by (cases "extract_info w (social_opts w
        (outtmpl_of target_dir (safe_name_of job_id output_name))) url") auto
    have "\<exists>fin p m. (fin = completed_update p \<or> fin = error_update m)
      \<and> run_social_download_job_updates w job_id url output_dir output_name
         = concat (map (hook w) events) @ [fin]"
      using td None er
      by (auto simp: run_social_download_job_updates_def Let_def split: sum.splits)
    then show ?thesis using hooks_shape [of _ w events] by blast
  qed
qed

lemma last_in_trace: "apply_updates st job_id kws \<in> set (store_trace st job_id kws)"
  by (induction kws arbitrary: st) (simp_all add: apply_updates_def)

lemma ex_updates:
  "run_download_job_updates example_world (uuid_hex 255) ''https://youtu.be/abc'' ''mp4'' ''720p'' True None None
    = [[(''progress'', PInt 99)], [(''progress'', PInt 98)],
       completed_update (Path ''/srv/downloads/clip.mp4'')]"
  by (simp add: run_download_job_updates_def get_format_selector_def quality_map_def
      target_dir_of_def example_world_def Let_def hook_def num_or_def final_path_def
      resolve_output_path_def)

text \<open>
  Claim C1, as the code has it: from its creation on, every progress value a runner
  leaves in the store for its job is an integer from 0 to 100; it is 100 only when the
  status is \<open>completed\<close>, and a job whose status is \<open>error\<close> has progress 0; every value
  the progress hook writes lies between 1 and 99. The values need not be
  non-decreasing: the hook writes what the downloader reports, the end of a transfer
  writes 98, and an error resets the progress to 0.
\<close>

theorem runner_progress_bounds:
  assumes "job_of st job_id = Some (initial_job now)"
    and "us = run_download_job_updates w job_id url fmt quality sound_on output_dir output_name
         \<or> us = run_social_download_job_updates w job_id url output_dir output_name"
    and "s \<in> set (store_trace st job_id us)"
  shows "(\<exists>n. progress_of s job_id = Some (PInt n) \<and> 0 \<le> n \<and> n \<le> 100
             \<and> (n = 100 \<longrightarrow> status_of s job_id = Some (PStr ''completed''))
             \<and> (status_of s job_id = Some (PStr ''error'') \<longrightarrow> n = 0))
         \<and> (\<forall>kw \<in> set (hook w d). \<exists>n. kw = [(''progress'', PInt n)] \<and> 1 \<le> n \<and> n \<le> 99)"
proof -
  have r: "running st job_id" using assms(1) by (rule initial_running)
  obtain kws fin p m where
    sh: "\<forall>kw \<in> set kws. \<exists>n. kw = [(''progress'', PInt n)] \<and> 1 \<le> n \<and> n \<le> 99"
        "fin = completed_update p \<or> fin = error_update m"
        "us = [] \<or> us = kws @ [fin]"
    using assms(2) download_updates_shape [of w job_id url fmt quality sound_on output_dir output_name]
      social_updates_shape [of w job_id url output_dir output_name]
    by metis
  have "progress_inv s job_id" using r sh assms(3) by (rule trace_inv)
  then show ?thesis using hook_shape [of _ w d] unfolding progress_inv_def by blast
qed

lemma ex_store:
  "job_of (snd (create_job empty_store 255 (Fin 0))) (uuid_hex 255) = Some (initial_job (Fin 0))"
  by (simp add: create_job_def Let_def job_of_insert_job)

lemma progress_of_update:
  "progress_of (update_job st job_id kw) job_id =
     (case job_of st job_id of None \<Rightarrow> None | Some j \<Rightarrow> (j ++ map_of kw) ''progress'')"
  by (simp add: progress_of_def job_of_update_same split: option.splits)

theorem runner_progress_bounds_witness:
  "job_of (snd (create_job empty_store 255 (Fin 0))) (uuid_hex 255) = Some (initial_job (Fin 0))
   \<and> apply_updates (snd (create_job empty_store 255 (Fin 0))) (uuid_hex 255)
        (run_download_job_updates example_world (uuid_hex 255) ''https://youtu.be/abc''
           ''mp4'' ''720p'' True None None)
      \<in> set (store_trace (snd (create_job empty_store 255 (Fin 0))) (uuid_hex 255)
        (run_download_job_updates example_world (uuid_hex 255) ''https://youtu.be/abc''
           ''mp4'' ''720p'' True None None))
   \<and> (\<exists>n. progress_of (apply_updates (snd (create_job empty_store 255 (Fin 0))) (uuid_hex 255)
        (run_download_job_updates example_world (uuid_hex 255) ''https://youtu.be/abc''
           ''mp4'' ''720p'' True None None)) (uuid_hex 255) = Some (PInt n) \<and> 0 \<le> n \<and> n \<le> 100)"
proof -
  let ?st = "snd (create_job empty_store 255 (Fin 0))"
  let ?us = "run_download_job_updates example_world (uuid_hex 255) ''https://youtu.be/abc''
           ''mp4'' ''720p'' True None None"
  have m: "apply_updates ?st (uuid_hex 255) ?us \<in> set (store_trace ?st (uuid_hex 255) ?us)"
    by (rule last_in_trace)
  have u: "?us = ?us \<or> ?us = run_social_download_job_updates example_world (uuid_hex 255)
       ''https://youtu.be/abc'' None None"
    by (rule disjI1) (rule refl)
  note t = runner_progress_bounds [OF ex_store u m, of Finished, THEN conjunct1]
  from t have "\<exists>n. progress_of (apply_updates ?st (uuid_hex 255) ?us) (uuid_hex 255) = Some (PInt n)
      \<and> 0 \<le> n \<and> n \<le> 100"
    by blast
  with ex_store m show ?thesis by (intro conjI)
qed

text \<open>
  The progress decreases in a run whose download reports 100 of 100 bytes and then the
  end of the transfer: the store holds 0, 99, 98 and 100 in turn.
\<close>

theorem progress_not_monotone:
  "progress_values
     (progress_trace (snd (create_job empty_store 255 (Fin 0))) (uuid_hex 255)
        (run_download_job_updates example_world (uuid_hex 255) ''https://youtu.be/abc''
           ''mp4'' ''720p'' True None None))
     = [0, 99, 98, 100]
   \<and> \<not> sorted [0, 99, 98, 100 :: int]"
  by (simp add: ex_updates progress_trace_def progress_of_def job_of_update_same ex_store
      completed_update_def initial_job_def)

section \<open>Properties of the artifact path\<close>










section \<open>Properties of the metrics analysis\<close>

lemma bind_err_Inr:
  assumes "bind_err x f = Inr r"
  obtains v where "x = Inr v" "f v = Inr r"
  using assms by (cases x) (auto simp: bind_err_def)

lemma score_higher_ok [simp]: "score_ok (score_higher_better v g k)"
  by (simp add: score_ok_def score_higher_better_def split: option.splits)

lemma score_lower_ok [simp]: "score_ok (score_lower_better v g k)"
  by (simp add: score_ok_def score_lower_better_def split: option.splits)

lemma add_metric_ok:
  assumes "list_all metric_ok (fst st)" "score_ok (fst (snd (snd call)))"
  shows "list_all metric_ok (fst (add_metric st call))"
  using assms
  by (cases st; cases call)
     (auto simp: add_metric_def metric_ok_def score_ok_def split: option.splits)

lemma foldl_add_metric_ok:
  assumes "list_all metric_ok (fst st)" "list_all (\<lambda>c. score_ok (fst (snd (snd c)))) calls"
  shows "list_all metric_ok (fst (foldl add_metric st calls))"
  using assms
  by (induction calls arbitrary: st) (simp_all add: add_metric_ok)

lemma summarize_metrics:
  assumes "list_all (\<lambda>c. score_ok (fst (snd (snd c)))) calls"
  shows "list_all metric_ok (r_metrics (summarize calls))"
proof -
  obtain r t where f: "foldl add_metric ([], []) calls = (r, t)"
    by (cases "foldl add_metric ([], []) calls")
  have "list_all metric_ok (fst (foldl add_metric ([], []) calls))"
    using assms by (intro foldl_add_metric_ok) simp_all
  then show ?thesis by (simp add: summarize_def Let_def f)
qed

lemma summarize_overall:
  "r_overall_score (summarize calls)
     = (if present_scores (summarize calls) \<noteq> []
        then sum_list (present_scores (summarize calls))
             div int (length (present_scores (summarize calls)))
        else 0)"
proof -
  obtain r t where f: "foldl add_metric ([], []) calls = (r, t)"
    by (cases "foldl add_metric ([], []) calls")
  show ?thesis by (simp add: summarize_def present_scores_def Let_def f)
qed

lemma present_scores_range:
  assumes "list_all metric_ok ms" "n \<in> set (map the (filter (\<lambda>s. s \<noteq> None) (map m_score ms)))"
  shows "n = 45 \<or> n = 75 \<or> n = 95"
proof -
  from assms(2) obtain e where e: "e \<in> set ms" "m_score e = Some n" by auto
  from assms(1) e(1) have "metric_ok e" by (simp add: list_all_iff)
  with e(2) show ?thesis by (auto simp: metric_ok_def)
qed

lemma mean_bounds:
  fixes xs :: "int list"
  assumes "xs \<noteq> []" "\<forall>x \<in> set xs. 45 \<le> x \<and> x \<le> 95"
  shows "45 \<le> sum_list xs div int (length xs) \<and> sum_list xs div int (length xs) \<le> 95"
proof -
  have lo: "45 * int (length xs) \<le> sum_list xs" using assms(2)
    by (induction xs) (auto simp: algebra_simps)
  have hi: "sum_list xs \<le> 95 * int (length xs)" using assms(2)
    by (induction xs) (auto simp: algebra_simps)
  have pos: "0 < int (length xs)" using assms(1) by simp
  have "(45 * int (length xs)) div int (length xs) \<le> sum_list xs div int (length xs)"
    using lo pos by (rule zdiv_mono1)
  moreover have "sum_list xs div int (length xs) \<le> (95 * int (length xs)) div int (length xs)"
    using hi pos by (rule zdiv_mono1)
  ultimately show ?thesis using pos by simp
qed

lemma analyze_metrics_calls:
  assumes "analyze_metrics fl m = Inr res"
  shows "\<exists>calls. res = summarize calls \<and> list_all (\<lambda>c. score_ok (fst (snd (snd c)))) calls"
  using assms unfolding analyze_metrics_def
  apply (elim bind_err_Inr)
  apply (simp only: Let_def)
  apply (elim bind_err_Inr)
  apply (simp only: sum.inject)
  apply (rule exI, rule conjI, erule sym)
  apply (simp (no_asm))
  done

lemma safe_float_total:
  assumes "in_float_range m"
  shows "\<exists>v. safe_float fl (dict_get m k) = Inr v"
proof (cases "map_of m k")
  case None
  then show ?thesis by (simp add: dict_get_def safe_float_def)
next
  case (Some v)
  then have "(k, v) \<in> set m" by (rule map_of_SomeD)
  with assms have "case v of PInt n \<Rightarrow> \<bar>n\<bar> < float_limit | _ \<Rightarrow> True"
    by (auto simp: in_float_range_def list_all_iff)
  then show ?thesis using Some
    by (cases v) (simp_all add: dict_get_def safe_float_def float_of_int_def Let_def)
qed

lemma bind_err_Inr_eq: "bind_err (Inr v) f = f v"
  by (simp add: bind_err_def)

lemma if_Inr: "(if c then Inr a else Inr b) = Inr (if c then a else b)"
  by simp

lemma analyze_metrics_total:
  assumes "in_float_range m"
  shows "\<exists>res. analyze_metrics fl m = Inr res"
proof -
  have "\<forall>k. \<exists>v. safe_float fl (dict_get m k) = Inr v"
    using assms safe_float_total by blast
  then obtain g where g: "\<And>k. safe_float fl (dict_get m k) = Inr (g k)" by metis
  show ?thesis
    apply (simp only: analyze_metrics_def g bind_err_Inr_eq Let_def if_Inr)
    apply (rule exI)
    apply (rule refl)
    done
qed

text \<open>
  On a metrics object whose integers are all within the range of a float the analysis
  returns; and whenever it returns, every score is absent with the rating \<open>No data\<close>
  or one of 45, 75 and 95, and the overall score is the integer mean of the present
  scores, from 45 to 95, or 0 when there is none.
\<close>

lemma analyze_metrics_scores:
  assumes "analyze_metrics fl m = Inr res"
  shows "list_all metric_ok (r_metrics res)
         \<and> r_overall_score res
             = (if present_scores res \<noteq> []
                then sum_list (present_scores res) div int (length (present_scores res))
                else 0)
         \<and> (present_scores res \<noteq> [] \<longrightarrow>
              45 \<le> r_overall_score res \<and> r_overall_score res \<le> 95)"
proof -
  from analyze_metrics_calls [OF assms] obtain calls where
    c: "res = summarize calls" "list_all (\<lambda>c. score_ok (fst (snd (snd c)))) calls"
    by blast
  have ok: "list_all metric_ok (r_metrics res)"
    unfolding c(1) using c(2) by (rule summarize_metrics)
  have ov: "r_overall_score res
             = (if present_scores res \<noteq> []
                then sum_list (present_scores res) div int (length (present_scores res))
                else 0)"
    unfolding c(1) by (rule summarize_overall)
  have rg: "\<forall>x \<in> set (present_scores res). 45 \<le> x \<and> x \<le> 95"
  proof
    fix x
    assume "x \<in> set (present_scores res)"
    then have "x = 45 \<or> x = 75 \<or> x = 95"
      unfolding present_scores_def using ok present_scores_range by blast
    then show "45 \<le> x \<and> x \<le> 95" by auto
  qed
  have "present_scores res \<noteq> [] \<longrightarrow> 45 \<le> r_overall_score res \<and> r_overall_score res \<le> 95"
  proof
    assume ne: "present_scores res \<noteq> []"
    from mean_bounds [OF ne rg] ov ne
    show "45 \<le> r_overall_score res \<and> r_overall_score res \<le> 95" by simp
  qed
  with ok ov show ?thesis by (intro conjI)
qed

text \<open>
  Claim C8 fails on a metrics object with an integer beyond the range of a float:
  \<^verbatim>\<open>safe_float\<close> catches \<^verbatim>\<open>ValueError\<close> only, and \<^verbatim>\<open>float\<close> raises
  \<^verbatim>\<open>OverflowError\<close> on \<open>2 ^ 1024\<close>, which the analysis lets through.
\<close>

theorem analyze_metrics_overflow:
  "analyze_metrics fl [(''views'', PInt (2 ^ 1024))]
     = Inl (OverflowError ''int too large to convert to float'')"
proof -
  have "float_limit \<le> \<bar>2 ^ 1024\<bar>" unfolding float_limit_def by simp
  then have "safe_float fl (PInt (2 ^ 1024)) = Inl (OverflowError ''int too large to convert to float'')"
    by (simp add: safe_float_def float_of_int_def)
  then show ?thesis
    by (simp add: analyze_metrics_def dict_get_def bind_err_def)
qed

section \<open>Properties of reading a job\<close>







section \<open>Properties of the URL Validator\<close>

text \<open>
  The validator on the URLs of the specification's scenarios: short links, watch and
  shorts URLs are accepted, with or without scheme and whatever the case of scheme and
  host; a missing \<open>v\<close>, an empty shorts id and another host are rejected; the path is
  compared as it is written. Unbalanced brackets in the netloc make \<^verbatim>\<open>urlparse\<close> raise.
\<close>

lemma youtube_url_examples:
  "is_valid_youtube_url no_brackets ''https://youtu.be/abc123'' = Inr True
   \<and> is_valid_youtube_url no_brackets ''youtu.be/abc123'' = Inr True
   \<and> is_valid_youtube_url no_brackets ''HTTPS://WWW.YouTube.com/watch?v=abc'' = Inr True
   \<and> is_valid_youtube_url no_brackets ''https://m.youtube.com/shorts/xyz'' = Inr True
   \<and> is_valid_youtube_url no_brackets ''https://youtube.com/watch?v='' = Inr False
   \<and> is_valid_youtube_url no_brackets ''https://youtube.com/shorts/'' = Inr False
   \<and> is_valid_youtube_url no_brackets ''https://example.com/watch?v=abc'' = Inr False
   \<and> is_valid_youtube_url no_brackets ''https://youtube.com/WATCH?v=abc'' = Inr False"
  by code_simp

lemma parse_bracket:
  "parse_input chk ''https://[youtu.be/x'' = Inl (ValueError ''Invalid IPv6 URL'')"
  by (simp add: parse_input_def urlparse_def urlsplit_def startswith_def ascii_alpha_def
      scheme_char_def ascii_digit_def lower_def lower_char_def Let_def)

lemma youtube_bracket:
  "is_valid_youtube_url chk ''https://[youtu.be/x'' = Inl (ValueError ''Invalid IPv6 URL'')"
  by (simp add: is_valid_youtube_url_def parse_bracket)

text \<open>
  Claim C5 says that the validator strips \<open>www.\<close> from the host as a prefix only and
  rejects every other input. The code removes every occurrence of \<open>www.\<close> from the
  lower-cased netloc, so the host \<open>youwww.tu.be\<close> becomes \<open>youtu.be\<close> and the URL is
  accepted.
\<close>

theorem youtube_url_www_inside:
  "is_valid_youtube_url chk ''https://youwww.tu.be/abc'' = Inr True"
  by (simp add: is_valid_youtube_url_def parse_input_def urlparse_def urlsplit_def
      startswith_def ascii_alpha_def scheme_char_def ascii_digit_def lower_def lower_char_def
      Let_def host_of_def split_first_def uses_params_def strip_chars_def strip_with_def)

section \<open>Properties of creating a job\<close>

lemma bracket_fields:
  "bind_err (request_data (PDict [(''url'', PStr ''https://[youtu.be/x'')])) download_fields
     = Inr (''https://[youtu.be/x'', ''mp4'', ''1080p60'', True, [], [])"
  by (simp add: request_data_def download_fields_def bind_err_def str_field_def dict_get_def
      bool_field_def py_strip_def strip_with_def py_isspace_def lower_def lower_char_def)

lemma bad_request_rejected: "msg \<noteq> [] \<Longrightarrow> rejected st (bad_request st msg)"
  by (simp add: rejected_def bad_request_def)

text \<open>
  Whatever the request, a handler either creates the job and answers with its id, or
  leaves the store as it was and starts no thread: with status 400 and a message when a
  validation check fails, or with an exception.
\<close>

lemma start_download_outcomes:
  "accepted st u now (start_download w chk st body u now)
   \<or> rejected st (start_download w chk st body u now)
   \<or> crashed st (start_download w chk st body u now)"
proof (cases "bind_err (request_data body) download_fields")
  case (Inl exc)
  then show ?thesis by (simp add: start_download_def crashed_def)
next
  case (Inr f)
  obtain url fmt quality sound_on output_dir_raw output_name_raw where
    f: "f = (url, fmt, quality, sound_on, output_dir_raw, output_name_raw)"
    by (cases f) auto
  show ?thesis
  proof (cases "is_valid_youtube_url chk url")
    case (Inl exc)
    then show ?thesis using Inr f by (simp add: start_download_def crashed_def)
  next
    case v: (Inr valid)
    show ?thesis
      using Inr f v
      by (auto simp: start_download_def Let_def bad_request_rejected accepted_def
          split: sum.splits if_splits)
  qed
qed

lemma start_download_rejects:
  assumes "bind_err (request_data body) download_fields
           = Inr (url, fmt, quality, sound_on, output_dir_raw, output_name_raw)"
    and "is_valid_youtube_url chk url = Inr valid"
    and "\<not> valid \<or> fmt \<notin> {''mp4'', ''mp3''} \<or> quality \<notin> {''360p'', ''720p'', ''1080p60''}
         \<or> (fmt = ''mp3'' \<and> \<not> sound_on)
         \<or> (output_dir_raw \<noteq> [] \<and> isl (expanduser w (Path output_dir_raw)))
         \<or> (output_name_raw \<noteq> [] \<and> sanitize_file_basename (Some output_name_raw) = None)"
  shows "rejected st (start_download w chk st body u now)"
  using assms
  by (auto simp: start_download_def Let_def bad_request_rejected isl_def
      split: sum.splits if_splits)

lemma social_download_outcomes:
  "accepted st u now (social_download validator msg w chk st body u now)
   \<or> (msg \<noteq> [] \<longrightarrow> rejected st (social_download validator msg w chk st body u now))
   \<or> crashed st (social_download validator msg w chk st body u now)"
proof (cases "bind_err (request_data body) (\<lambda>d. bind_err (str_field d ''url'' []) (\<lambda>url. Inr (d, url)))")
  case (Inl exc)
  then show ?thesis by (simp add: social_download_def crashed_def)
next
  case (Inr f)
  obtain d url where f: "f = (d, url)" by (cases f)
  show ?thesis
  proof (cases "validator chk url")
    case (Inl exc)
    then show ?thesis using Inr f by (simp add: social_download_def crashed_def)
  next
    case v: (Inr valid)
    show ?thesis
    proof (cases "parse_output_settings w d")
      case (Inl exc)
      then show ?thesis using Inr f v
        by (auto simp: social_download_def crashed_def bad_request_rejected)
    next
      case p: (Inr r)
      obtain output_dir output_name error where r: "r = (output_dir, output_name, error)"
        by (cases r) auto
      have e: "error = None \<or> error = Some ''Invalid output folder path.''
               \<or> error = Some ''Invalid output file name.''"
        using p r
        by (auto simp: parse_output_settings_def bind_err_def Let_def
            split: sum.splits if_splits)
      show ?thesis using Inr f v p r e
        by (auto simp: social_download_def bad_request_rejected accepted_def create_job_def
            Let_def)
    qed
  qed
qed

text \<open>
  Claim C4 says that every request that fails validation is answered with status 400
  and a message, and creates no job. On a URL whose netloc has an unbalanced bracket
  \<^verbatim>\<open>urlparse\<close> raises inside \<^verbatim>\<open>is_valid_youtube_url\<close>; nothing catches the
  \<^verbatim>\<open>ValueError\<close>, so the request ends in an exception (status 500) instead of the
  400 response. No job is created.
\<close>

theorem start_download_invalid_url_raises:
  "start_download w chk st (PDict [(''url'', PStr ''https://[youtu.be/x'')]) u now
     = (Inl (ValueError ''Invalid IPv6 URL''), st, None)"
  by (simp add: start_download_def bracket_fields youtube_bracket)

section \<open>Properties of the output template\<close>








end
